theory Spec2Isabelle
  imports Main "HOL-Library.Word"
begin

section \<open>Data model\<close>

text \<open>
  An image buffer is a numpy array: a shape tuple, an element type and the raw bytes.
  A \<open>Tensor\<close> is the array subclass of \<open>caer.adorad\<close>: the same buffer with a colour-space
  label \<open>cspace\<close>. The conversion functions read \<open>img.shape\<close> only, so they take any
  value of the scheme \<open>'a ndarray_scheme\<close>, a plain array or a \<open>Tensor\<close>.
\<close>

record ndarray =
  shape :: "nat list"
  dtype :: string
  data :: "8 word list"

record Tensor = ndarray +
  cspace :: string

text \<open>
  The two exceptions a conversion can end with: the \<open>ValueError\<close> the functions raise
  themselves, and whatever the native layer raises (\<open>cv2.error\<close>), which no function
  catches.
\<close>

datatype error = ValueError string | CvError string

text \<open>Calls that leave the two modules, in the order they are made.\<close>

datatype call =
    CvtColor ndarray int
  | Bgr2gray Tensor
  | Bgr2hsv Tensor
  | Bgr2hls Tensor
  | Bgr2lab Tensor

text \<open>
  The collaborators neither module defines are parameters: the native primitive
  \<open>cv.cvtColor\<close> (\<open>Inl\<close> is the message of the error it raises), the four functions
  imported from \<open>._bgr\<close>, and the four codes imported from \<open>._constants\<close>.
\<close>

record env =
  cvtColor :: "ndarray \<Rightarrow> int \<Rightarrow> string + ndarray"
  bgr2gray :: "Tensor \<Rightarrow> error + Tensor"
  bgr2hsv :: "Tensor \<Rightarrow> error + Tensor"
  bgr2hls :: "Tensor \<Rightarrow> error + Tensor"
  bgr2lab :: "Tensor \<Rightarrow> error + Tensor"
  HLS2BGR :: int
  HLS2RGB :: int
  HSV2BGR :: int
  HSV2RGB :: int

text \<open>A computation ends with an exception or a value, and leaves the list of its calls.\<close>

type_synonym 'a io = "(error + 'a) \<times> call list"

definition io_raise :: "error \<Rightarrow> 'a io" where
  "io_raise e = (Inl e, [])"

definition io_return :: "'a \<Rightarrow> 'a io" where
  "io_return x = (Inr x, [])"

definition io_bind :: "'a io \<Rightarrow> ('a \<Rightarrow> 'b io) \<Rightarrow> 'b io" where
  "io_bind m f =
     (case m of
        (Inl e, tr) \<Rightarrow> (Inl e, tr)
      | (Inr x, tr) \<Rightarrow> (case f x of (r, tr') \<Rightarrow> (r, tr @ tr')))"

definition cv_cvtColor :: "env \<Rightarrow> 'a ndarray_scheme \<Rightarrow> int \<Rightarrow> ndarray io" where
  "cv_cvtColor E img code =
     ((case cvtColor E (ndarray.truncate img) code of
         Inl m \<Rightarrow> Inl (CvError m)
       | Inr im \<Rightarrow> Inr im),
      [CvtColor (ndarray.truncate img) code])"

definition call_bgr2gray :: "env \<Rightarrow> Tensor \<Rightarrow> Tensor io" where
  "call_bgr2gray E bgr = (bgr2gray E bgr, [Bgr2gray bgr])"

definition call_bgr2hsv :: "env \<Rightarrow> Tensor \<Rightarrow> Tensor io" where
  "call_bgr2hsv E bgr = (bgr2hsv E bgr, [Bgr2hsv bgr])"

definition call_bgr2hls :: "env \<Rightarrow> Tensor \<Rightarrow> Tensor io" where
  "call_bgr2hls E bgr = (bgr2hls E bgr, [Bgr2hls bgr])"

definition call_bgr2lab :: "env \<Rightarrow> Tensor \<Rightarrow> Tensor io" where
  "call_bgr2lab E bgr = (bgr2lab E bgr, [Bgr2lab bgr])"

text \<open>
  Modelled from the spec: \<open>to_tensor\<close> of \<open>caer.adorad\<close>, defined outside the two modules.
  The spec describes it as the factory \<open>makeImage(buffer, colorSpaceTag)\<close> that wraps the
  raw output buffer in a new container and stamps the label on it.
\<close>

definition to_tensor :: "'a ndarray_scheme \<Rightarrow> string \<Rightarrow> Tensor" where
  "to_tensor x cs = \<lparr>shape = shape x, dtype = dtype x, data = data x, cspace = cs\<rparr>"

text \<open>The text Python's \<open>str\<close> gives for a length, as the f-strings embed it.\<close>

definition digit :: "nat \<Rightarrow> char" where
  "digit d = ''0123456789'' ! d"

fun str_nat :: "nat \<Rightarrow> string" where
  "str_nat n = (if n < 10 then [digit n] else str_nat (n div 10) @ [digit (n mod 10)])"

declare str_nat.simps [simp del]

section \<open>Module \<open>_hls\<close>\<close>

text \<open>
  \<open>len(img.shape) == 3 and img.shape[-1] == 3\<close>: the right operand is read only when
  the left one holds, so \<open>shape[-1]\<close> is never taken of an empty tuple.
\<close>

definition is_hls_image :: "'a ndarray_scheme \<Rightarrow> bool" where
  "is_hls_image img = (if length (shape img) = 3 then last (shape img) = 3 else False)"

definition hls2rgb :: "env \<Rightarrow> 'a ndarray_scheme \<Rightarrow> Tensor io" where
  "hls2rgb E img =
     (if \<not> is_hls_image img then
        io_raise (ValueError (''Tensor of shape 3 expected. Found shape ''
          @ str_nat (length (shape img))
          @ ''. This function converts a HLS Tensor to its RGB counterpart''))
      else
        io_bind (cv_cvtColor E img (HLS2RGB E)) (\<lambda>im.
        io_return (to_tensor im ''rgb'')))"

definition hls2bgr :: "env \<Rightarrow> 'a ndarray_scheme \<Rightarrow> Tensor io" where
  "hls2bgr E img =
     (if \<not> is_hls_image img then
        io_raise (ValueError (''Tensor of shape 3 expected. Found shape ''
          @ str_nat (length (shape img))
          @ ''. This function converts a HLS Tensor to its BGR counterpart''))
      else
        io_bind (cv_cvtColor E img (HLS2BGR E)) (\<lambda>im.
        io_return (to_tensor im ''bgr'')))"

definition hls2gray :: "env \<Rightarrow> 'a ndarray_scheme \<Rightarrow> Tensor io" where
  "hls2gray E img =
     (if \<not> is_hls_image img then
        io_raise (ValueError (''Tensor of shape 3 expected. Found shape ''
          @ str_nat (length (shape img))
          @ ''. This function converts a HLS Tensor to its Grayscale counterpart''))
      else
        io_bind (hls2bgr E img) (\<lambda>bgr.
        io_bind (call_bgr2gray E bgr) (\<lambda>im.
        io_return (to_tensor im ''gray''))))"

definition hls2hsv :: "env \<Rightarrow> 'a ndarray_scheme \<Rightarrow> Tensor io" where
  "hls2hsv E img =
     (if \<not> is_hls_image img then
        io_raise (ValueError (''Tensor of shape 3 expected. Found shape ''
          @ str_nat (length (shape img))
          @ ''. This function converts a HLS Tensor to its LAB counterpart''))
      else
        io_bind (hls2bgr E img) (\<lambda>bgr.
        io_bind (call_bgr2hsv E bgr) (\<lambda>im.
        io_return (to_tensor im ''hsv''))))"

definition hls2lab :: "env \<Rightarrow> 'a ndarray_scheme \<Rightarrow> Tensor io" where
  "hls2lab E img =
     (if \<not> is_hls_image img then
        io_raise (ValueError (''Tensor of shape 3 expected. Found shape ''
          @ str_nat (length (shape img))
          @ ''. This function converts a HLS Tensor to its LAB counterpart''))
      else
        io_bind (hls2bgr E img) (\<lambda>bgr.
        io_bind (call_bgr2lab E bgr) (\<lambda>im.
        io_return (to_tensor im ''lab''))))"

section \<open>Module \<open>_hsv\<close>\<close>

definition is_hsv_image :: "'a ndarray_scheme \<Rightarrow> bool" where
  "is_hsv_image img = (if length (shape img) = 3 then last (shape img) = 3 else False)"

definition hsv2rgb :: "env \<Rightarrow> 'a ndarray_scheme \<Rightarrow> Tensor io" where
  "hsv2rgb E img =
     (if \<not> is_hsv_image img then
        io_raise (ValueError (''Tensor of shape 3 expected. Found shape ''
          @ str_nat (length (shape img))
          @ ''. This function converts a HSV Tensor to its RGB counterpart''))
      else
        io_bind (cv_cvtColor E img (HSV2RGB E)) (\<lambda>im.
        io_return (to_tensor im ''rgb'')))"

definition hsv2bgr :: "env \<Rightarrow> 'a ndarray_scheme \<Rightarrow> Tensor io" where
  "hsv2bgr E img =
     (if \<not> is_hsv_image img then
        io_raise (ValueError (''Tensor of shape 3 expected. Found shape ''
          @ str_nat (length (shape img))
          @ ''. This function converts a HSV Tensor to its BGR counterpart''))
      else
        io_bind (cv_cvtColor E img (HSV2BGR E)) (\<lambda>im.
        io_return (to_tensor im ''bgr'')))"

definition hsv2gray :: "env \<Rightarrow> 'a ndarray_scheme \<Rightarrow> Tensor io" where
  "hsv2gray E img =
     (if \<not> is_hsv_image img then
        io_raise (ValueError (''Tensor of shape 3 expected. Found shape ''
          @ str_nat (length (shape img))
          @ ''. This function converts a HSV Tensor to its Grayscale counterpart''))
      else
        io_bind (hsv2bgr E img) (\<lambda>bgr.
        io_bind (call_bgr2gray E bgr) (\<lambda>im.
        io_return (to_tensor im ''gray''))))"

definition hsv2hls :: "env \<Rightarrow> 'a ndarray_scheme \<Rightarrow> Tensor io" where
  "hsv2hls E img =
     (if \<not> is_hsv_image img then
        io_raise (ValueError (''Tensor of shape 3 expected. Found shape ''
          @ str_nat (length (shape img))
          @ ''. This function converts a HSV Tensor to its HLS counterpart''))
      else
        io_bind (hsv2bgr E img) (\<lambda>bgr.
        io_bind (call_bgr2hls E bgr) (\<lambda>im.
        io_return (to_tensor im ''hls''))))"

definition hsv2lab :: "env \<Rightarrow> 'a ndarray_scheme \<Rightarrow> Tensor io" where
  "hsv2lab E img =
     (if \<not> is_hsv_image img then
        io_raise (ValueError (''Tensor of shape 3 expected. Found shape ''
          @ str_nat (length (shape img))
          @ ''. This function converts a HSV Tensor to its LAB counterpart''))
      else
        io_bind (hsv2bgr E img) (\<lambda>bgr.
        io_bind (call_bgr2lab E bgr) (\<lambda>im.
        io_return (to_tensor im ''lab''))))"

section \<open>The public interface\<close>

text \<open>The names the two modules export in \<open>__all__\<close>, and the function each one names.\<close>

datatype conversion =
    Hls2rgb | Hls2bgr | Hls2lab | Hls2gray | Hls2hsv
  | Hsv2rgb | Hsv2bgr | Hsv2lab | Hsv2gray | Hsv2hls

fun convert :: "conversion \<Rightarrow> env \<Rightarrow> 'a ndarray_scheme \<Rightarrow> Tensor io" where
  "convert Hls2rgb = hls2rgb"
| "convert Hls2bgr = hls2bgr"
| "convert Hls2lab = hls2lab"
| "convert Hls2gray = hls2gray"
| "convert Hls2hsv = hls2hsv"
| "convert Hsv2rgb = hsv2rgb"
| "convert Hsv2bgr = hsv2bgr"
| "convert Hsv2lab = hsv2lab"
| "convert Hsv2gray = hsv2gray"
| "convert Hsv2hls = hsv2hls"

text \<open>
  A call ended at the shape check: it raised \<open>ValueError\<close> before any call left the
  module.
\<close>

fun shape_error :: "'a io \<Rightarrow> bool" where
  "shape_error (Inl (ValueError m), []) = True"
| "shape_error r = False"

text \<open>The destination each function declares in its name and its docstring.\<close>

fun declared_destination :: "conversion \<Rightarrow> string" where
  "declared_destination Hls2rgb = ''rgb''"
| "declared_destination Hls2bgr = ''bgr''"
| "declared_destination Hls2lab = ''lab''"
| "declared_destination Hls2gray = ''gray''"
| "declared_destination Hls2hsv = ''hsv''"
| "declared_destination Hsv2rgb = ''rgb''"
| "declared_destination Hsv2bgr = ''bgr''"
| "declared_destination Hsv2lab = ''lab''"
| "declared_destination Hsv2gray = ''gray''"
| "declared_destination Hsv2hls = ''hls''"

text \<open>
  The six chained converters: the code each hands to the native primitive on the way
  to BGR, and the function of the BGR module each calls on the intermediate.
\<close>

fun chain_of :: "conversion \<Rightarrow> ((env \<Rightarrow> int) \<times> (env \<Rightarrow> Tensor \<Rightarrow> Tensor io)) option" where
  "chain_of Hls2gray = Some (HLS2BGR, call_bgr2gray)"
| "chain_of Hls2hsv = Some (HLS2BGR, call_bgr2hsv)"
| "chain_of Hls2lab = Some (HLS2BGR, call_bgr2lab)"
| "chain_of Hsv2gray = Some (HSV2BGR, call_bgr2gray)"
| "chain_of Hsv2hls = Some (HSV2BGR, call_bgr2hls)"
| "chain_of Hsv2lab = Some (HSV2BGR, call_bgr2lab)"
| "chain_of c = None"

text \<open>
  The chained converter as the spec words it: the source is converted to BGR, the BGR
  intermediate is handed to the function of the BGR module, and what that second hop
  gives is returned under the label of the destination.
\<close>

definition two_hop ::
  "('a \<Rightarrow> Tensor io) \<Rightarrow> (Tensor \<Rightarrow> Tensor io) \<Rightarrow> string \<Rightarrow> 'a \<Rightarrow> Tensor io" where
  "two_hop first_hop second_hop dst img =
     (case first_hop img of
        (Inl e, tr) \<Rightarrow> (Inl e, tr)
      | (Inr bgr, tr) \<Rightarrow>
          (case second_hop bgr of
             (Inl e, tr') \<Rightarrow> (Inl e, tr @ tr')
           | (Inr im, tr') \<Rightarrow> (Inr (im\<lparr>cspace := dst\<rparr>), tr @ tr')))"

text \<open>The buffer a call returned, without its label, or the exception it raised.\<close>

definition returned_buffer :: "Tensor io \<Rightarrow> error + ndarray" where
  "returned_buffer r = (case fst r of Inl e \<Rightarrow> Inl e | Inr t \<Rightarrow> Inr (ndarray.truncate t))"

text \<open>
  Modelled from the spec: what the native primitive and the functions of \<open>._bgr\<close> do to
  the shape of a three-channel image; both are defined outside the two modules. The spec: the
  conversion never changes height and width, and the channel count is set by the
  destination, 3 for every space but grayscale.
\<close>

definition three_channel :: "nat list \<Rightarrow> bool" where
  "three_channel sh = (if length sh = 3 then last sh = 3 else False)"

definition keeps_geometry :: "env \<Rightarrow> bool" where
  "keeps_geometry E \<longleftrightarrow>
     (\<forall>src code im. three_channel (shape src) \<and> cvtColor E src code = Inr im
        \<and> (code = HLS2BGR E \<or> code = HLS2RGB E \<or> code = HSV2BGR E \<or> code = HSV2RGB E)
        \<longrightarrow> shape im = shape src) \<and>
     (\<forall>bgr im. three_channel (shape bgr) \<and> bgr2hsv E bgr = Inr im \<longrightarrow> shape im = shape bgr) \<and>
     (\<forall>bgr im. three_channel (shape bgr) \<and> bgr2hls E bgr = Inr im \<longrightarrow> shape im = shape bgr) \<and>
     (\<forall>bgr im. three_channel (shape bgr) \<and> bgr2lab E bgr = Inr im \<longrightarrow> shape im = shape bgr) \<and>
     (\<forall>bgr im. three_channel (shape bgr) \<and> bgr2gray E bgr = Inr im
        \<longrightarrow> take 2 (shape im) = take 2 (shape bgr))"

section \<open>The text of the shape error\<close>

text \<open>
  The ten messages differ in two words only, the source space and the counterpart
  named; the tables below list them as the two modules have them.
\<close>

fun source_space :: "conversion \<Rightarrow> string" where
  "source_space Hls2rgb = ''HLS''"
| "source_space Hls2bgr = ''HLS''"
| "source_space Hls2lab = ''HLS''"
| "source_space Hls2gray = ''HLS''"
| "source_space Hls2hsv = ''HLS''"
| "source_space c = ''HSV''"

fun counterpart :: "conversion \<Rightarrow> string" where
  "counterpart Hls2rgb = ''RGB''"
| "counterpart Hls2bgr = ''BGR''"
| "counterpart Hls2lab = ''LAB''"
| "counterpart Hls2gray = ''Grayscale''"
| "counterpart Hls2hsv = ''LAB''"
| "counterpart Hsv2rgb = ''RGB''"
| "counterpart Hsv2bgr = ''BGR''"
| "counterpart Hsv2lab = ''LAB''"
| "counterpart Hsv2gray = ''Grayscale''"
| "counterpart Hsv2hls = ''HLS''"

definition shape_message :: "conversion \<Rightarrow> nat \<Rightarrow> string" where
  "shape_message c n =
     ''Tensor of shape 3 expected. Found shape '' @ str_nat n
     @ ''. This function converts a '' @ source_space c @ '' Tensor to its ''
     @ counterpart c @ '' counterpart''"

section \<open>Objects and their identity\<close>

text \<open>
  To speak of the input object and of the object returned, the functions are written
  a second time over a store: the arrays and the tensors allocated so far, each named by
  its index.
\<close>

record heap =
  arrays :: "ndarray list"
  tensors :: "Tensor list"

type_synonym 'a hio = "heap \<Rightarrow> (error + 'a) \<times> heap"

definition heap_bind :: "'a hio \<Rightarrow> ('a \<Rightarrow> 'b hio) \<Rightarrow> 'b hio" where
  "heap_bind m f h = (case m h of (Inl e, h') \<Rightarrow> (Inl e, h') | (Inr x, h') \<Rightarrow> f x h')"

definition heap_raise :: "error \<Rightarrow> 'a hio" where
  "heap_raise e h = (Inl e, h)"

text \<open>
  Modelled from the spec: how the collaborators, all defined outside the two modules, treat
  objects. The spec: the native primitive maps a buffer to a buffer, the factory wraps a
  buffer in a new container, and a call allocates its output and is free of other
  effects. So each one reads its argument and allocates its result.
\<close>

definition new_array :: "ndarray \<Rightarrow> nat hio" where
  "new_array a h = (Inr (length (arrays h)), h\<lparr>arrays := arrays h @ [a]\<rparr>)"

definition new_tensor :: "Tensor \<Rightarrow> nat hio" where
  "new_tensor t h = (Inr (length (tensors h)), h\<lparr>tensors := tensors h @ [t]\<rparr>)"

definition cvtColor_heap :: "env \<Rightarrow> nat \<Rightarrow> int \<Rightarrow> nat hio" where
  "cvtColor_heap E img code h =
     (case cvtColor E (ndarray.truncate (tensors h ! img)) code of
        Inl m \<Rightarrow> (Inl (CvError m), h)
      | Inr im \<Rightarrow> new_array im h)"

definition to_tensor_heap :: "nat \<Rightarrow> string \<Rightarrow> nat hio" where
  "to_tensor_heap im cs h = new_tensor (to_tensor (arrays h ! im) cs) h"

definition retag_heap :: "nat \<Rightarrow> string \<Rightarrow> nat hio" where
  "retag_heap im cs h = new_tensor (to_tensor (tensors h ! im) cs) h"

definition bgr_heap :: "(Tensor \<Rightarrow> error + Tensor) \<Rightarrow> nat \<Rightarrow> nat hio" where
  "bgr_heap f bgr h =
     (case f (tensors h ! bgr) of
        Inl e \<Rightarrow> (Inl e, h)
      | Inr im \<Rightarrow> new_tensor im h)"

definition hls2rgb_heap :: "env \<Rightarrow> nat \<Rightarrow> nat hio" where
  "hls2rgb_heap E img h =
     (if \<not> is_hls_image (tensors h ! img) then
        heap_raise (ValueError (shape_message Hls2rgb (length (shape (tensors h ! img))))) h
      else
        heap_bind (cvtColor_heap E img (HLS2RGB E)) (\<lambda>im.
        to_tensor_heap im ''rgb'') h)"

definition hls2bgr_heap :: "env \<Rightarrow> nat \<Rightarrow> nat hio" where
  "hls2bgr_heap E img h =
     (if \<not> is_hls_image (tensors h ! img) then
        heap_raise (ValueError (shape_message Hls2bgr (length (shape (tensors h ! img))))) h
      else
        heap_bind (cvtColor_heap E img (HLS2BGR E)) (\<lambda>im.
        to_tensor_heap im ''bgr'') h)"

definition hls2gray_heap :: "env \<Rightarrow> nat \<Rightarrow> nat hio" where
  "hls2gray_heap E img h =
     (if \<not> is_hls_image (tensors h ! img) then
        heap_raise (ValueError (shape_message Hls2gray (length (shape (tensors h ! img))))) h
      else
        heap_bind (hls2bgr_heap E img) (\<lambda>bgr.
        heap_bind (bgr_heap (bgr2gray E) bgr) (\<lambda>im.
        retag_heap im ''gray'')) h)"

definition hls2hsv_heap :: "env \<Rightarrow> nat \<Rightarrow> nat hio" where
  "hls2hsv_heap E img h =
     (if \<not> is_hls_image (tensors h ! img) then
        heap_raise (ValueError (shape_message Hls2hsv (length (shape (tensors h ! img))))) h
      else
        heap_bind (hls2bgr_heap E img) (\<lambda>bgr.
        heap_bind (bgr_heap (bgr2hsv E) bgr) (\<lambda>im.
        retag_heap im ''hsv'')) h)"

definition hls2lab_heap :: "env \<Rightarrow> nat \<Rightarrow> nat hio" where
  "hls2lab_heap E img h =
     (if \<not> is_hls_image (tensors h ! img) then
        heap_raise (ValueError (shape_message Hls2lab (length (shape (tensors h ! img))))) h
      else
        heap_bind (hls2bgr_heap E img) (\<lambda>bgr.
        heap_bind (bgr_heap (bgr2lab E) bgr) (\<lambda>im.
        retag_heap im ''lab'')) h)"

definition hsv2rgb_heap :: "env \<Rightarrow> nat \<Rightarrow> nat hio" where
  "hsv2rgb_heap E img h =
     (if \<not> is_hsv_image (tensors h ! img) then
        heap_raise (ValueError (shape_message Hsv2rgb (length (shape (tensors h ! img))))) h
      else
        heap_bind (cvtColor_heap E img (HSV2RGB E)) (\<lambda>im.
        to_tensor_heap im ''rgb'') h)"

definition hsv2bgr_heap :: "env \<Rightarrow> nat \<Rightarrow> nat hio" where
  "hsv2bgr_heap E img h =
     (if \<not> is_hsv_image (tensors h ! img) then
        heap_raise (ValueError (shape_message Hsv2bgr (length (shape (tensors h ! img))))) h
      else
        heap_bind (cvtColor_heap E img (HSV2BGR E)) (\<lambda>im.
        to_tensor_heap im ''bgr'') h)"

definition hsv2gray_heap :: "env \<Rightarrow> nat \<Rightarrow> nat hio" where
  "hsv2gray_heap E img h =
     (if \<not> is_hsv_image (tensors h ! img) then
        heap_raise (ValueError (shape_message Hsv2gray (length (shape (tensors h ! img))))) h
      else
        heap_bind (hsv2bgr_heap E img) (\<lambda>bgr.
        heap_bind (bgr_heap (bgr2gray E) bgr) (\<lambda>im.
        retag_heap im ''gray'')) h)"

definition hsv2hls_heap :: "env \<Rightarrow> nat \<Rightarrow> nat hio" where
  "hsv2hls_heap E img h =
     (if \<not> is_hsv_image (tensors h ! img) then
        heap_raise (ValueError (shape_message Hsv2hls (length (shape (tensors h ! img))))) h
      else
        heap_bind (hsv2bgr_heap E img) (\<lambda>bgr.
        heap_bind (bgr_heap (bgr2hls E) bgr) (\<lambda>im.
        retag_heap im ''hls'')) h)"

definition hsv2lab_heap :: "env \<Rightarrow> nat \<Rightarrow> nat hio" where
  "hsv2lab_heap E img h =
     (if \<not> is_hsv_image (tensors h ! img) then
        heap_raise (ValueError (shape_message Hsv2lab (length (shape (tensors h ! img))))) h
      else
        heap_bind (hsv2bgr_heap E img) (\<lambda>bgr.
        heap_bind (bgr_heap (bgr2lab E) bgr) (\<lambda>im.
        retag_heap im ''lab'')) h)"

fun convert_heap :: "conversion \<Rightarrow> env \<Rightarrow> nat \<Rightarrow> nat hio" where
  "convert_heap Hls2rgb = hls2rgb_heap"
| "convert_heap Hls2bgr = hls2bgr_heap"
| "convert_heap Hls2lab = hls2lab_heap"
| "convert_heap Hls2gray = hls2gray_heap"
| "convert_heap Hls2hsv = hls2hsv_heap"
| "convert_heap Hsv2rgb = hsv2rgb_heap"
| "convert_heap Hsv2bgr = hsv2bgr_heap"
| "convert_heap Hsv2lab = hsv2lab_heap"
| "convert_heap Hsv2gray = hsv2gray_heap"
| "convert_heap Hsv2hls = hsv2hls_heap"

text \<open>
  A store extends another when every object of the old one is still there, unchanged;
  a result is fresh when the store was only extended and the tensor returned was
  allocated by the call.
\<close>

definition extends :: "heap \<Rightarrow> heap \<Rightarrow> bool" where
  "extends h h' \<longleftrightarrow>
     take (length (arrays h)) (arrays h') = arrays h \<and> length (arrays h) \<le> length (arrays h') \<and>
     take (length (tensors h)) (tensors h') = tensors h \<and> length (tensors h) \<le> length (tensors h')"

definition fresh_result :: "heap \<Rightarrow> (error + nat) \<times> heap \<Rightarrow> bool" where
  "fresh_result h out =
     (case out of
        (Inl e, h') \<Rightarrow> extends h h'
      | (Inr r, h') \<Rightarrow> extends h h' \<and> length (tensors h) \<le> r \<and> r < length (tensors h'))"

text \<open>
  A run over the store agrees with a run on values: the same exception, or the value
  stored at the index returned.
\<close>

definition simulates :: "Tensor io \<Rightarrow> (error + nat) \<times> heap \<Rightarrow> bool" where
  "simulates v out =
     (case out of
        (Inl e, h') \<Rightarrow> fst v = Inl e
      | (Inr r, h') \<Rightarrow> fst v = Inr (tensors h' ! r))"

section \<open>Collaborators with a state of their own\<close>

text \<open>
  Whether two calls give the same output is a question about what lies outside the two
  modules as well: the native primitive and the BGR functions could keep state, or
  answer differently from call to call. So the functions are written once more with each
  collaborator as a relation between the state of the outside before the call, the
  outcome, and the state after it; here the native primitive raises whatever it
  raises.
\<close>

type_synonym ('w, 'a) act = "'w \<Rightarrow> error + 'a \<Rightarrow> 'w \<Rightarrow> bool"

record 'w outside =
  cvtColor_w :: "ndarray \<Rightarrow> int \<Rightarrow> ('w, ndarray) act"
  bgr2gray_w :: "Tensor \<Rightarrow> ('w, Tensor) act"
  bgr2hsv_w :: "Tensor \<Rightarrow> ('w, Tensor) act"
  bgr2hls_w :: "Tensor \<Rightarrow> ('w, Tensor) act"
  bgr2lab_w :: "Tensor \<Rightarrow> ('w, Tensor) act"
  HLS2BGR_w :: int
  HLS2RGB_w :: int
  HSV2BGR_w :: int
  HSV2RGB_w :: int

definition act_raise :: "error \<Rightarrow> ('w, 'a) act" where
  "act_raise e w r w' \<longleftrightarrow> r = Inl e \<and> w' = w"

definition act_return :: "'a \<Rightarrow> ('w, 'a) act" where
  "act_return x w r w' \<longleftrightarrow> r = Inr x \<and> w' = w"

definition act_bind :: "('w, 'a) act \<Rightarrow> ('a \<Rightarrow> ('w, 'b) act) \<Rightarrow> ('w, 'b) act" where
  "act_bind m f w r w' \<longleftrightarrow>
     (\<exists>e. m w (Inl e) w' \<and> r = Inl e) \<or> (\<exists>x w1. m w (Inr x) w1 \<and> f x w1 r w')"

definition hls2rgb_act :: "'w outside \<Rightarrow> 'a ndarray_scheme \<Rightarrow> ('w, Tensor) act" where
  "hls2rgb_act W img =
     (if \<not> is_hls_image img then
        act_raise (ValueError (shape_message Hls2rgb (length (shape img))))
      else
        act_bind (cvtColor_w W (ndarray.truncate img) (HLS2RGB_w W)) (\<lambda>im.
        act_return (to_tensor im ''rgb'')))"

definition hls2bgr_act :: "'w outside \<Rightarrow> 'a ndarray_scheme \<Rightarrow> ('w, Tensor) act" where
  "hls2bgr_act W img =
     (if \<not> is_hls_image img then
        act_raise (ValueError (shape_message Hls2bgr (length (shape img))))
      else
        act_bind (cvtColor_w W (ndarray.truncate img) (HLS2BGR_w W)) (\<lambda>im.
        act_return (to_tensor im ''bgr'')))"

definition hls2gray_act :: "'w outside \<Rightarrow> 'a ndarray_scheme \<Rightarrow> ('w, Tensor) act" where
  "hls2gray_act W img =
     (if \<not> is_hls_image img then
        act_raise (ValueError (shape_message Hls2gray (length (shape img))))
      else
        act_bind (hls2bgr_act W img) (\<lambda>bgr.
        act_bind (bgr2gray_w W bgr) (\<lambda>im.
        act_return (to_tensor im ''gray''))))"

definition hls2hsv_act :: "'w outside \<Rightarrow> 'a ndarray_scheme \<Rightarrow> ('w, Tensor) act" where
  "hls2hsv_act W img =
     (if \<not> is_hls_image img then
        act_raise (ValueError (shape_message Hls2hsv (length (shape img))))
      else
        act_bind (hls2bgr_act W img) (\<lambda>bgr.
        act_bind (bgr2hsv_w W bgr) (\<lambda>im.
        act_return (to_tensor im ''hsv''))))"

definition hls2lab_act :: "'w outside \<Rightarrow> 'a ndarray_scheme \<Rightarrow> ('w, Tensor) act" where
  "hls2lab_act W img =
     (if \<not> is_hls_image img then
        act_raise (ValueError (shape_message Hls2lab (length (shape img))))
      else
        act_bind (hls2bgr_act W img) (\<lambda>bgr.
        act_bind (bgr2lab_w W bgr) (\<lambda>im.
        act_return (to_tensor im ''lab''))))"

definition hsv2rgb_act :: "'w outside \<Rightarrow> 'a ndarray_scheme \<Rightarrow> ('w, Tensor) act" where
  "hsv2rgb_act W img =
     (if \<not> is_hsv_image img then
        act_raise (ValueError (shape_message Hsv2rgb (length (shape img))))
      else
        act_bind (cvtColor_w W (ndarray.truncate img) (HSV2RGB_w W)) (\<lambda>im.
        act_return (to_tensor im ''rgb'')))"

definition hsv2bgr_act :: "'w outside \<Rightarrow> 'a ndarray_scheme \<Rightarrow> ('w, Tensor) act" where
  "hsv2bgr_act W img =
     (if \<not> is_hsv_image img then
        act_raise (ValueError (shape_message Hsv2bgr (length (shape img))))
      else
        act_bind (cvtColor_w W (ndarray.truncate img) (HSV2BGR_w W)) (\<lambda>im.
        act_return (to_tensor im ''bgr'')))"

definition hsv2gray_act :: "'w outside \<Rightarrow> 'a ndarray_scheme \<Rightarrow> ('w, Tensor) act" where
  "hsv2gray_act W img =
     (if \<not> is_hsv_image img then
        act_raise (ValueError (shape_message Hsv2gray (length (shape img))))
      else
        act_bind (hsv2bgr_act W img) (\<lambda>bgr.
        act_bind (bgr2gray_w W bgr) (\<lambda>im.
        act_return (to_tensor im ''gray''))))"

definition hsv2hls_act :: "'w outside \<Rightarrow> 'a ndarray_scheme \<Rightarrow> ('w, Tensor) act" where
  "hsv2hls_act W img =
     (if \<not> is_hsv_image img then
        act_raise (ValueError (shape_message Hsv2hls (length (shape img))))
      else
        act_bind (hsv2bgr_act W img) (\<lambda>bgr.
        act_bind (bgr2hls_w W bgr) (\<lambda>im.
        act_return (to_tensor im ''hls''))))"

definition hsv2lab_act :: "'w outside \<Rightarrow> 'a ndarray_scheme \<Rightarrow> ('w, Tensor) act" where
  "hsv2lab_act W img =
     (if \<not> is_hsv_image img then
        act_raise (ValueError (shape_message Hsv2lab (length (shape img))))
      else
        act_bind (hsv2bgr_act W img) (\<lambda>bgr.
        act_bind (bgr2lab_w W bgr) (\<lambda>im.
        act_return (to_tensor im ''lab''))))"

fun convert_act :: "conversion \<Rightarrow> 'w outside \<Rightarrow> 'a ndarray_scheme \<Rightarrow> ('w, Tensor) act" where
  "convert_act Hls2rgb = hls2rgb_act"
| "convert_act Hls2bgr = hls2bgr_act"
| "convert_act Hls2lab = hls2lab_act"
| "convert_act Hls2gray = hls2gray_act"
| "convert_act Hls2hsv = hls2hsv_act"
| "convert_act Hsv2rgb = hsv2rgb_act"
| "convert_act Hsv2bgr = hsv2bgr_act"
| "convert_act Hsv2lab = hsv2lab_act"
| "convert_act Hsv2gray = hsv2gray_act"
| "convert_act Hsv2hls = hsv2hls_act"

text \<open>
  Modelled from the spec: the collaborators, defined outside the two modules, are
  deterministic and free of side effects. The spec: every operation is a pure function
  of its image argument, there is no shared mutable state, and a conversion is
  deterministic given identical input. An action is settled when its outcome is the same
  from every state and it leaves the state as it found it.
\<close>

definition settled :: "('w, 'a) act \<Rightarrow> bool" where
  "settled m \<longleftrightarrow>
     (\<forall>w r w' v s v'. m w r w' \<and> m v s v' \<longrightarrow> r = s) \<and> (\<forall>w r w'. m w r w' \<longrightarrow> w' = w)"

definition pure_collaborators :: "'w outside \<Rightarrow> bool" where
  "pure_collaborators W \<longleftrightarrow>
     (\<forall>src code. settled (cvtColor_w W src code)) \<and>
     (\<forall>bgr. settled (bgr2gray_w W bgr)) \<and>
     (\<forall>bgr. settled (bgr2hsv_w W bgr)) \<and>
     (\<forall>bgr. settled (bgr2hls_w W bgr)) \<and>
     (\<forall>bgr. settled (bgr2lab_w W bgr))"

text \<open>
  Collaborators given as functions are the special case of relations that are graphs.
\<close>

definition graph :: "error + 'a \<Rightarrow> ('w, 'a) act" where
  "graph x w r w' \<longleftrightarrow> r = x \<and> w' = w"

definition as_outside :: "env \<Rightarrow> 'w outside" where
  "as_outside E =
     \<lparr>cvtColor_w = (\<lambda>src code.
         graph (case cvtColor E src code of Inl m \<Rightarrow> Inl (CvError m) | Inr im \<Rightarrow> Inr im)),
      bgr2gray_w = (\<lambda>bgr. graph (bgr2gray E bgr)),
      bgr2hsv_w = (\<lambda>bgr. graph (bgr2hsv E bgr)),
      bgr2hls_w = (\<lambda>bgr. graph (bgr2hls E bgr)),
      bgr2lab_w = (\<lambda>bgr. graph (bgr2lab E bgr)),
      HLS2BGR_w = HLS2BGR E, HLS2RGB_w = HLS2RGB E,
      HSV2BGR_w = HSV2BGR E, HSV2RGB_w = HSV2RGB E\<rparr>"

section \<open>Collaborators and inputs to run the functions on\<close>

text \<open>
  A stand-in for the collaborators. Its native primitive accepts the element types
  \<open>uint8\<close> and \<open>float32\<close> and raises on any other, the failure the spec names for the
  native layer; its colour arithmetic is a placeholder. The codes are those of OpenCV.
\<close>

definition stub_cvtColor :: "ndarray \<Rightarrow> int \<Rightarrow> string + ndarray" where
  "stub_cvtColor src code =
     (if dtype src = ''uint8'' \<or> dtype src = ''float32''
      then Inr (src\<lparr>data := rev (data src)\<rparr>)
      else Inl ''Unsupported depth of input image'')"

definition stub_bgr2gray :: "Tensor \<Rightarrow> error + Tensor" where
  "stub_bgr2gray bgr =
     Inr \<lparr>shape = take 2 (shape bgr), dtype = dtype bgr,
          data = take (length (data bgr) div 3) (data bgr), cspace = ''gray''\<rparr>"

definition stub :: env where
  "stub = \<lparr>cvtColor = stub_cvtColor,
           bgr2gray = stub_bgr2gray,
           bgr2hsv = (\<lambda>bgr. Inr (bgr\<lparr>cspace := ''hsv''\<rparr>)),
           bgr2hls = (\<lambda>bgr. Inr (bgr\<lparr>cspace := ''hls''\<rparr>)),
           bgr2lab = (\<lambda>bgr. Inr (bgr\<lparr>cspace := ''lab''\<rparr>)),
           HLS2BGR = 60, HLS2RGB = 61, HSV2BGR = 54, HSV2RGB = 55\<rparr>"

text \<open>A 1x2 grayscale-like array, a 1x1 colour image, and the same image in float64.\<close>

definition flat :: Tensor where
  "flat = \<lparr>shape = [1, 2], dtype = ''uint8'', data = [7, 9], cspace = ''hls''\<rparr>"

definition pixel :: Tensor where
  "pixel = \<lparr>shape = [1, 1, 3], dtype = ''uint8'', data = [10, 20, 30], cspace = ''hls''\<rparr>"

definition pixel64 :: Tensor where
  "pixel64 = \<lparr>shape = [1, 1, 3], dtype = ''float64'',
              data = replicate 24 0, cspace = ''hls''\<rparr>"

text \<open>
  A store holding the colour image and the grayscale-like array.
\<close>

definition heap0 :: heap where
  "heap0 = \<lparr>arrays = [], tensors = [pixel, flat]\<rparr>"


text \<open>
  An outside that is not pure: its native primitive counts its calls and lets the count
  into the bytes it returns.
\<close>

definition drifting :: "nat outside" where
  "drifting =
     \<lparr>cvtColor_w = (\<lambda>src code w r w'.
         r = Inr (src\<lparr>data := map (\<lambda>x. x + of_nat w) (data src)\<rparr>) \<and> w' = Suc w),
      bgr2gray_w = (\<lambda>bgr. graph (stub_bgr2gray bgr)),
      bgr2hsv_w = (\<lambda>bgr. graph (Inr (bgr\<lparr>cspace := ''hsv''\<rparr>))),
      bgr2hls_w = (\<lambda>bgr. graph (Inr (bgr\<lparr>cspace := ''hls''\<rparr>))),
      bgr2lab_w = (\<lambda>bgr. graph (Inr (bgr\<lparr>cspace := ''lab''\<rparr>))),
      HLS2BGR_w = 60, HLS2RGB_w = 61, HSV2BGR_w = 54, HSV2RGB_w = 55\<rparr>"

section \<open>The shape check\<close>

lemmas conv_defs = hls2rgb_def hls2bgr_def hls2gray_def hls2hsv_def hls2lab_def
  hsv2rgb_def hsv2bgr_def hsv2gray_def hsv2hls_def hsv2lab_def

lemmas io_defs = io_raise_def io_return_def io_bind_def cv_cvtColor_def
  call_bgr2gray_def call_bgr2hsv_def call_bgr2hls_def call_bgr2lab_def

lemmas stub_defs = stub_def stub_cvtColor_def stub_bgr2gray_def

lemma is_hls_image_iff:
  "is_hls_image img \<longleftrightarrow> length (shape img) = 3 \<and> last (shape img) = 3"
  by (simp add: is_hls_image_def)

lemma is_hsv_image_iff:
  "is_hsv_image img \<longleftrightarrow> length (shape img) = 3 \<and> last (shape img) = 3"
  by (simp add: is_hsv_image_def)

lemma length3_last3: "length sh = 3 \<and> last sh = 3 \<longleftrightarrow> (\<exists>h w. sh = [h, w, 3::nat])"
proof
  assume a: "length sh = 3 \<and> last sh = 3"
  then obtain h w c where "sh = [h, w, c]"
    by (auto simp: length_Suc_conv numeral_3_eq_3)
  with a show "\<exists>h w. sh = [h, w, 3]" by simp
next
  assume "\<exists>h w. sh = [h, w, 3]"
  then show "length sh = 3 \<and> last sh = 3" by auto
qed

text \<open>
  C1. An input whose shape fails the admission check makes each of the ten public
  functions raise the shape error, with no call made to the native primitive or to the
  BGR module; and each validator holds exactly when \<open>len(img.shape) == 3\<close> and
  \<open>img.shape[-1] == 3\<close>. The validators are pure: they compute a truth value and
  leave no call.
\<close>

theorem shape_gate:
  "(is_hls_image img \<longleftrightarrow> length (shape img) = 3 \<and> last (shape img) = 3) \<and>
   (is_hsv_image img \<longleftrightarrow> length (shape img) = 3 \<and> last (shape img) = 3) \<and>
   (\<not> (length (shape img) = 3 \<and> last (shape img) = 3) \<longrightarrow>
      (\<exists>m. convert c E img = (Inl (ValueError m), [])))"
  by (cases c) (auto simp: conv_defs io_raise_def is_hls_image_def is_hsv_image_def)

theorem shape_gate_witness:
  "\<not> (length (shape flat) = 3 \<and> last (shape flat) = 3) \<and>
   \<not> is_hls_image flat \<and> \<not> is_hsv_image flat \<and>
   (\<exists>m. convert Hsv2lab stub flat = (Inl (ValueError m), []))"
  using shape_gate [of flat Hsv2lab stub] by (simp add: flat_def)

section \<open>The error message\<close>

text \<open>
  C2. The message of the shape error is to say which conversion was attempted. Run on
  the 1x2 array, \<open>hls2hsv\<close> reports the expected and the found dimensionality, and
  then names the LAB conversion, the text of \<open>hls2lab\<close>, where its docstring and
  its name say HSV.
\<close>

theorem hls2hsv_message_names_lab:
  "hls2hsv stub flat = (Inl (ValueError ''Tensor of shape 3 expected. Found shape 2. This function converts a HLS Tensor to its LAB counterpart''), [])"
  by (simp add: hls2hsv_def is_hls_image_def flat_def io_raise_def str_nat.simps digit_def)

section \<open>Labels\<close>

text \<open>
  C4. Every successful call returns a container whose colour-space label is the
  destination the function declares: \<open>rgb\<close> for \<open>hls2rgb\<close> and \<open>hsv2rgb\<close>,
  \<open>bgr\<close> for \<open>hls2bgr\<close> and \<open>hsv2bgr\<close>, \<open>gray\<close> for \<open>hls2gray\<close> and
  \<open>hsv2gray\<close>, \<open>hsv\<close> for \<open>hls2hsv\<close>, \<open>hls\<close> for \<open>hsv2hls\<close>, \<open>lab\<close> for
  \<open>hls2lab\<close> and \<open>hsv2lab\<close>.
\<close>

theorem tag_correctness:
  "convert c E img = (Inr t, tr) \<Longrightarrow> cspace t = declared_destination c"
  by (cases c)
     (auto simp: conv_defs io_defs to_tensor_def split: if_splits sum.splits prod.splits)

theorem tag_correctness_witness:
  "convert Hsv2hls stub pixel =
     (Inr \<lparr>shape = [1, 1, 3], dtype = ''uint8'', data = [30, 20, 10], cspace = ''hls''\<rparr>,
      [CvtColor \<lparr>shape = [1, 1, 3], dtype = ''uint8'', data = [10, 20, 30]\<rparr> 54,
       Bgr2hls \<lparr>shape = [1, 1, 3], dtype = ''uint8'', data = [30, 20, 10], cspace = ''bgr''\<rparr>]) \<and>
   cspace \<lparr>shape = [1, 1, 3], dtype = ''uint8'', data = [30, 20, 10], cspace = ''hls''\<rparr>
     = declared_destination Hsv2hls"
proof -
  have run: "convert Hsv2hls stub pixel =
     (Inr \<lparr>shape = [1, 1, 3], dtype = ''uint8'', data = [30, 20, 10], cspace = ''hls''\<rparr>,
      [CvtColor \<lparr>shape = [1, 1, 3], dtype = ''uint8'', data = [10, 20, 30]\<rparr> 54,
       Bgr2hls \<lparr>shape = [1, 1, 3], dtype = ''uint8'', data = [30, 20, 10], cspace = ''bgr''\<rparr>])"
    by (simp add: conv_defs io_defs is_hsv_image_def pixel_def stub_defs to_tensor_def
        ndarray.truncate_def)
  from tag_correctness [OF run] run show ?thesis by simp
qed

section \<open>Chained conversions\<close>

text \<open>
  C5. On an input that passes the shape check, each of the six chained converters is
  the two-hop pipeline: the module's own converter to BGR first, then the function of
  the BGR module for the destination on that intermediate, whose result is returned
  under the destination's label.
\<close>

theorem chained_is_two_hop:
  "length (shape img) = 3 \<and> last (shape img) = 3 \<Longrightarrow>
     hls2gray E img = two_hop (hls2bgr E) (call_bgr2gray E) ''gray'' img \<and>
     hls2hsv E img = two_hop (hls2bgr E) (call_bgr2hsv E) ''hsv'' img \<and>
     hls2lab E img = two_hop (hls2bgr E) (call_bgr2lab E) ''lab'' img \<and>
     hsv2gray E img = two_hop (hsv2bgr E) (call_bgr2gray E) ''gray'' img \<and>
     hsv2hls E img = two_hop (hsv2bgr E) (call_bgr2hls E) ''hls'' img \<and>
     hsv2lab E img = two_hop (hsv2bgr E) (call_bgr2lab E) ''lab'' img"
  by (simp add: hls2gray_def hls2hsv_def hls2lab_def hsv2gray_def hsv2hls_def hsv2lab_def
        two_hop_def io_bind_def io_return_def to_tensor_def is_hls_image_def is_hsv_image_def
        call_bgr2gray_def call_bgr2hsv_def call_bgr2hls_def call_bgr2lab_def
      split: sum.splits prod.splits)

theorem chained_is_two_hop_witness:
  "length (shape pixel) = 3 \<and> last (shape pixel) = 3 \<and>
   hls2gray stub pixel = two_hop (hls2bgr stub) (call_bgr2gray stub) ''gray'' pixel \<and>
   hls2gray stub pixel =
     (Inr \<lparr>shape = [1, 1], dtype = ''uint8'', data = [30], cspace = ''gray''\<rparr>,
      [CvtColor \<lparr>shape = [1, 1, 3], dtype = ''uint8'', data = [10, 20, 30]\<rparr> 60,
       Bgr2gray \<lparr>shape = [1, 1, 3], dtype = ''uint8'', data = [30, 20, 10], cspace = ''bgr''\<rparr>])"
proof -
  have valid: "length (shape pixel) = 3 \<and> last (shape pixel) = 3"
    by (simp add: pixel_def)
  have run: "hls2gray stub pixel =
     (Inr \<lparr>shape = [1, 1], dtype = ''uint8'', data = [30], cspace = ''gray''\<rparr>,
      [CvtColor \<lparr>shape = [1, 1, 3], dtype = ''uint8'', data = [10, 20, 30]\<rparr> 60,
       Bgr2gray \<lparr>shape = [1, 1, 3], dtype = ''uint8'', data = [30, 20, 10], cspace = ''bgr''\<rparr>])"
    by (simp add: hls2gray_def hls2bgr_def io_defs is_hls_image_def pixel_def stub_defs
        to_tensor_def ndarray.truncate_def)
  from chained_is_two_hop [OF valid, of stub] valid run show ?thesis by simp
qed

text \<open>
  C3. For a valid three-channel input \<open>X\<close>, \<open>hls2gray(X)\<close> and
  \<open>bgr2gray(hls2bgr(X))\<close> make the same calls, fail alike, and return the same buffer
  bit for bit; \<open>hls2gray\<close> labels its result \<open>gray\<close>, so the two containers are
  equal altogether as soon as \<open>bgr2gray\<close> labels its own result \<open>gray\<close>.
\<close>

theorem hls2gray_chain:
  "is_hls_image X \<Longrightarrow>
     returned_buffer (hls2gray E X) = returned_buffer (io_bind (hls2bgr E X) (call_bgr2gray E)) \<and>
     snd (hls2gray E X) = snd (io_bind (hls2bgr E X) (call_bgr2gray E)) \<and>
     (\<forall>im. fst (io_bind (hls2bgr E X) (call_bgr2gray E)) = Inr im \<and> cspace im = ''gray''
        \<longrightarrow> hls2gray E X = io_bind (hls2bgr E X) (call_bgr2gray E))"
  by (auto simp: hls2gray_def returned_buffer_def io_bind_def io_return_def to_tensor_def
        call_bgr2gray_def ndarray.truncate_def
      split: sum.splits prod.splits)

theorem hls2gray_chain_witness:
  "is_hls_image pixel \<and>
   returned_buffer (hls2gray stub pixel) = Inr \<lparr>shape = [1, 1], dtype = ''uint8'', data = [30]\<rparr> \<and>
   returned_buffer (io_bind (hls2bgr stub pixel) (call_bgr2gray stub))
     = Inr \<lparr>shape = [1, 1], dtype = ''uint8'', data = [30]\<rparr> \<and>
   hls2gray stub pixel = io_bind (hls2bgr stub pixel) (call_bgr2gray stub)"
proof -
  have valid: "is_hls_image pixel"
    by (simp add: is_hls_image_def pixel_def)
  have chain: "io_bind (hls2bgr stub pixel) (call_bgr2gray stub) =
     (Inr \<lparr>shape = [1, 1], dtype = ''uint8'', data = [30], cspace = ''gray''\<rparr>,
      [CvtColor \<lparr>shape = [1, 1, 3], dtype = ''uint8'', data = [10, 20, 30]\<rparr> 60,
       Bgr2gray \<lparr>shape = [1, 1, 3], dtype = ''uint8'', data = [30, 20, 10], cspace = ''bgr''\<rparr>])"
    by (simp add: hls2bgr_def io_defs is_hls_image_def pixel_def stub_defs
        to_tensor_def ndarray.truncate_def)
  from hls2gray_chain [OF valid, of stub] valid chain show ?thesis
    by (simp add: returned_buffer_def ndarray.truncate_def)
qed

text \<open>
  C6, as amended. On an input that passes the shape check, a chained converter hands
  that same input to its inner converter, whose shape-error branch is never taken: the
  first call to leave the module is the native conversion of the input's buffer to BGR.
  If the native primitive raises, the chain ends with that error, unchanged, and makes
  no further call; if it returns, the chain goes on to the second hop with the BGR
  tensor. The inner converters themselves, on such an input, fail exactly when the
  primitive does.
\<close>

theorem inner_shape_check_unreachable:
  assumes valid: "length (shape img) = 3 \<and> last (shape img) = 3"
    and chain: "chain_of c = Some (code, second_hop)"
  shows
    "(\<forall>m. cvtColor E (ndarray.truncate img) (code E) = Inl m \<longrightarrow>
        convert c E img = (Inl (CvError m), [CvtColor (ndarray.truncate img) (code E)])) \<and>
     (\<forall>im. cvtColor E (ndarray.truncate img) (code E) = Inr im \<longrightarrow>
        convert c E img =
          (case second_hop E (to_tensor im ''bgr'') of
             (Inl e, tr) \<Rightarrow> (Inl e, CvtColor (ndarray.truncate img) (code E) # tr)
           | (Inr r, tr) \<Rightarrow>
               (Inr (to_tensor r (declared_destination c)),
                CvtColor (ndarray.truncate img) (code E) # tr))) \<and>
     hls2bgr E img =
       (case cvtColor E (ndarray.truncate img) (HLS2BGR E) of
          Inl m \<Rightarrow> Inl (CvError m) | Inr im \<Rightarrow> Inr (to_tensor im ''bgr''),
        [CvtColor (ndarray.truncate img) (HLS2BGR E)]) \<and>
     hsv2bgr E img =
       (case cvtColor E (ndarray.truncate img) (HSV2BGR E) of
          Inl m \<Rightarrow> Inl (CvError m) | Inr im \<Rightarrow> Inr (to_tensor im ''bgr''),
        [CvtColor (ndarray.truncate img) (HSV2BGR E)]) \<and>
     (\<forall>m. fst (hls2bgr E img) \<noteq> Inl (ValueError m)) \<and>
     (\<forall>m. fst (hsv2bgr E img) \<noteq> Inl (ValueError m))"
proof -
  have hls: "is_hls_image img" and hsv: "is_hsv_image img"
    using valid by (simp_all add: is_hls_image_def is_hsv_image_def)
  have inner: "hls2bgr E img =
       (case cvtColor E (ndarray.truncate img) (HLS2BGR E) of
          Inl m \<Rightarrow> Inl (CvError m) | Inr im \<Rightarrow> Inr (to_tensor im ''bgr''),
        [CvtColor (ndarray.truncate img) (HLS2BGR E)])"
    "hsv2bgr E img =
       (case cvtColor E (ndarray.truncate img) (HSV2BGR E) of
          Inl m \<Rightarrow> Inl (CvError m) | Inr im \<Rightarrow> Inr (to_tensor im ''bgr''),
        [CvtColor (ndarray.truncate img) (HSV2BGR E)])"
    using hls hsv by (auto simp: hls2bgr_def hsv2bgr_def io_defs split: sum.splits)
  have never: "\<forall>m. fst (hls2bgr E img) \<noteq> Inl (ValueError m)"
    "\<forall>m. fst (hsv2bgr E img) \<noteq> Inl (ValueError m)"
    by (auto simp: inner split: sum.splits)
  have fails: "\<forall>m. cvtColor E (ndarray.truncate img) (code E) = Inl m \<longrightarrow>
        convert c E img = (Inl (CvError m), [CvtColor (ndarray.truncate img) (code E)])"
    using chain hls hsv
    by (cases c)
       (auto simp: hls2gray_def hls2hsv_def hls2lab_def hsv2gray_def hsv2hls_def hsv2lab_def
          inner io_bind_def)
  have passes: "\<forall>im. cvtColor E (ndarray.truncate img) (code E) = Inr im \<longrightarrow>
        convert c E img =
          (case second_hop E (to_tensor im ''bgr'') of
             (Inl e, tr) \<Rightarrow> (Inl e, CvtColor (ndarray.truncate img) (code E) # tr)
           | (Inr r, tr) \<Rightarrow>
               (Inr (to_tensor r (declared_destination c)),
                CvtColor (ndarray.truncate img) (code E) # tr))"
    using chain hls hsv
    by (cases c)
       (auto simp: hls2gray_def hls2hsv_def hls2lab_def hsv2gray_def hsv2hls_def hsv2lab_def
          inner io_bind_def io_return_def call_bgr2gray_def call_bgr2hsv_def call_bgr2hls_def
          call_bgr2lab_def split: sum.splits)
  from fails passes inner never show ?thesis by blast
qed

theorem inner_shape_check_unreachable_witness:
  "length (shape pixel64) = 3 \<and> last (shape pixel64) = 3 \<and>
   chain_of Hls2gray = Some (HLS2BGR, call_bgr2gray) \<and>
   cvtColor stub (ndarray.truncate pixel64) (HLS2BGR stub) = Inl ''Unsupported depth of input image'' \<and>
   convert Hls2gray stub pixel64 =
     (Inl (CvError ''Unsupported depth of input image''),
      [CvtColor \<lparr>shape = [1, 1, 3], dtype = ''float64'', data = replicate 24 0\<rparr> 60]) \<and>
   length (shape pixel) = 3 \<and> last (shape pixel) = 3 \<and>
   chain_of Hsv2hls = Some (HSV2BGR, call_bgr2hls) \<and>
   cvtColor stub (ndarray.truncate pixel) (HSV2BGR stub)
     = Inr \<lparr>shape = [1, 1, 3], dtype = ''uint8'', data = [30, 20, 10]\<rparr> \<and>
   convert Hsv2hls stub pixel =
     (Inr \<lparr>shape = [1, 1, 3], dtype = ''uint8'', data = [30, 20, 10], cspace = ''hls''\<rparr>,
      [CvtColor \<lparr>shape = [1, 1, 3], dtype = ''uint8'', data = [10, 20, 30]\<rparr> 54,
       Bgr2hls \<lparr>shape = [1, 1, 3], dtype = ''uint8'', data = [30, 20, 10], cspace = ''bgr''\<rparr>])"
proof -
  have v64: "length (shape pixel64) = 3 \<and> last (shape pixel64) = 3"
    and v: "length (shape pixel) = 3 \<and> last (shape pixel) = 3"
    by (simp_all add: pixel64_def pixel_def)
  have c1: "chain_of Hls2gray = Some (HLS2BGR, call_bgr2gray)"
    and c2: "chain_of Hsv2hls = Some (HSV2BGR, call_bgr2hls)"
    by simp_all
  have n1: "cvtColor stub (ndarray.truncate pixel64) (HLS2BGR stub)
      = Inl ''Unsupported depth of input image''"
    and n2: "cvtColor stub (ndarray.truncate pixel) (HSV2BGR stub)
      = Inr \<lparr>shape = [1, 1, 3], dtype = ''uint8'', data = [30, 20, 10]\<rparr>"
    by (simp_all add: pixel64_def pixel_def stub_defs ndarray.truncate_def)
  from inner_shape_check_unreachable [OF v64 c1, of stub]
    inner_shape_check_unreachable [OF v c2, of stub] v64 v c1 c2 n1 n2
  show ?thesis
    by (simp add: pixel64_def pixel_def stub_defs to_tensor_def ndarray.truncate_def
        call_bgr2hls_def)
qed

text \<open>
  C6, as stated, fails: a 1x1x3 image of element type float64 passes the shape check,
  the native primitive rejects it, and so the conversion to BGR inside \<open>hls2gray\<close>
  fails.
\<close>

theorem inner_conversion_fails_counterexample:
  "is_hls_image pixel64 \<and>
   hls2bgr stub pixel64 =
     (Inl (CvError ''Unsupported depth of input image''),
      [CvtColor \<lparr>shape = [1, 1, 3], dtype = ''float64'', data = replicate 24 0\<rparr> 60]) \<and>
   hls2gray stub pixel64 =
     (Inl (CvError ''Unsupported depth of input image''),
      [CvtColor \<lparr>shape = [1, 1, 3], dtype = ''float64'', data = replicate 24 0\<rparr> 60])"
  by (simp add: hls2gray_def hls2bgr_def io_defs is_hls_image_def pixel64_def stub_defs
        ndarray.truncate_def)

section \<open>What acceptance depends on\<close>

lemma convert_reads_buffer:
  "ndarray.truncate a = ndarray.truncate b \<Longrightarrow> convert c E a = convert c E b"
  by (cases c)
     (simp_all add: conv_defs io_defs to_tensor_def is_hls_image_def is_hsv_image_def
        ndarray.truncate_def)

lemma shape_error_convert:
  "shape_error (convert c E img) \<longleftrightarrow> \<not> (length (shape img) = 3 \<and> last (shape img) = 3)"
  by (cases c)
     (auto simp: conv_defs io_defs is_hls_image_def is_hsv_image_def
           split: sum.splits prod.splits)

text \<open>
  C10. Whether a function rejects its input at the shape check depends on the shape
  tuple alone: two inputs of equal shape are rejected together or not at all, whatever
  their bytes, element type and label; every shape \<open>(h, w, 3)\<close> is admitted, zero
  height and width included; and the validators of the two modules are the same
  predicate.
\<close>

theorem acceptance_by_shape_only:
  "(shape a = shape b \<longrightarrow> shape_error (convert c E a) = shape_error (convert c E b)) \<and>
   (shape a = [h, w, 3] \<longrightarrow> \<not> shape_error (convert c E a)) \<and>
   is_hls_image a = is_hsv_image a"
  by (simp add: shape_error_convert is_hls_image_def is_hsv_image_def)

theorem acceptance_by_shape_only_witness:
  "shape pixel = shape pixel64 \<and> pixel \<noteq> pixel64 \<and>
   shape_error (convert Hls2gray stub pixel) = shape_error (convert Hls2gray stub pixel64) \<and>
   shape pixel = [1, 1, 3] \<and> \<not> shape_error (convert Hls2gray stub pixel) \<and>
   is_hls_image pixel = is_hsv_image pixel"
proof -
  have same: "shape pixel = shape pixel64" and three: "shape pixel = [1, 1, 3]"
    and differ: "pixel \<noteq> pixel64"
    by (simp_all add: pixel_def pixel64_def)
  from acceptance_by_shape_only [of pixel pixel64 Hls2gray stub 1 1] same three differ
  show ?thesis by blast
qed

section \<open>Geometry\<close>

lemma direct_keeps_shape:
  assumes "keeps_geometry E" and "three_channel (shape img)"
  shows "hls2rgb E img = (Inr t, tr) \<Longrightarrow> shape t = shape img"
    and "hls2bgr E img = (Inr t, tr) \<Longrightarrow> shape t = shape img"
    and "hsv2rgb E img = (Inr t, tr) \<Longrightarrow> shape t = shape img"
    and "hsv2bgr E img = (Inr t, tr) \<Longrightarrow> shape t = shape img"
proof -
  have native: "shape im = shape img"
    if "cvtColor E (ndarray.truncate img) code = Inr im"
      and "code = HLS2BGR E \<or> code = HLS2RGB E \<or> code = HSV2BGR E \<or> code = HSV2RGB E"
    for code im
  proof -
    have "three_channel (shape (ndarray.truncate img))"
      using assms(2) by (simp add: ndarray.truncate_def)
    with assms(1) that have "shape im = shape (ndarray.truncate img)"
      unfolding keeps_geometry_def by blast
    then show ?thesis by (simp add: ndarray.truncate_def)
  qed
  show "hls2rgb E img = (Inr t, tr) \<Longrightarrow> shape t = shape img"
    using native [of "HLS2RGB E"]
    by (auto simp: hls2rgb_def io_defs to_tensor_def split: if_splits sum.splits)
  show "hls2bgr E img = (Inr t, tr) \<Longrightarrow> shape t = shape img"
    using native [of "HLS2BGR E"]
    by (auto simp: hls2bgr_def io_defs to_tensor_def split: if_splits sum.splits)
  show "hsv2rgb E img = (Inr t, tr) \<Longrightarrow> shape t = shape img"
    using native [of "HSV2RGB E"]
    by (auto simp: hsv2rgb_def io_defs to_tensor_def split: if_splits sum.splits)
  show "hsv2bgr E img = (Inr t, tr) \<Longrightarrow> shape t = shape img"
    using native [of "HSV2BGR E"]
    by (auto simp: hsv2bgr_def io_defs to_tensor_def split: if_splits sum.splits)
qed

lemma keeps_geometry_bgr:
  assumes "keeps_geometry E"
  shows "three_channel (shape bgr) \<Longrightarrow> bgr2gray E bgr = Inr im
           \<Longrightarrow> take 2 (shape im) = take 2 (shape bgr)"
    and "three_channel (shape bgr) \<Longrightarrow> bgr2hsv E bgr = Inr im \<Longrightarrow> shape im = shape bgr"
    and "three_channel (shape bgr) \<Longrightarrow> bgr2hls E bgr = Inr im \<Longrightarrow> shape im = shape bgr"
    and "three_channel (shape bgr) \<Longrightarrow> bgr2lab E bgr = Inr im \<Longrightarrow> shape im = shape bgr"
  using assms unfolding keeps_geometry_def by blast+

lemma io_bind_Inr:
  "io_bind m f = (Inr y, tr) \<Longrightarrow>
     \<exists>x tr1 tr2. m = (Inr x, tr1) \<and> f x = (Inr y, tr2) \<and> tr = tr1 @ tr2"
  by (auto simp: io_bind_def split: sum.splits prod.splits)

lemma second_hop_shape:
  assumes "io_bind m (\<lambda>bgr. io_bind (second_hop bgr) (\<lambda>im.
             io_return (to_tensor im d))) = (Inr t, tr)"
    and "\<forall>bgr tr1. m = (Inr bgr, tr1) \<longrightarrow> shape bgr = sh"
  shows "\<exists>bgr im tr2. shape bgr = sh \<and> second_hop bgr = (Inr im, tr2)
           \<and> shape t = shape im"
proof -
  from io_bind_Inr [OF assms(1)] obtain bgr tr1 tr2 where
    first: "m = (Inr bgr, tr1)" and
    rest: "io_bind (second_hop bgr) (\<lambda>im. io_return (to_tensor im d)) = (Inr t, tr2)"
    by blast
  from io_bind_Inr [OF rest] obtain im tr3 tr4 where
    second: "second_hop bgr = (Inr im, tr3)" and
    wrap: "io_return (to_tensor im d) = (Inr t, tr4)"
    by blast
  from wrap have "shape t = shape im"
    by (auto simp: io_return_def to_tensor_def)
  with assms(2) first second show ?thesis by blast
qed

lemma stub_keeps_geometry: "keeps_geometry stub"
  unfolding keeps_geometry_def
  by (simp add: stub_defs split: if_splits)

text \<open>
  C7. Given collaborators that keep to the spec's contract on shapes, every successful
  conversion of a valid three-channel input returns a buffer of the input's height and
  width, and of three channels when the destination is RGB, BGR, HSV, HLS or LAB.
\<close>

theorem geometry_preserved:
  assumes contract: "keeps_geometry E"
    and valid: "three_channel (shape img)"
    and ok: "convert c E img = (Inr t, tr)"
  shows "take 2 (shape t) = take 2 (shape img) \<and>
         (declared_destination c \<noteq> ''gray'' \<longrightarrow> shape t = shape img \<and> three_channel (shape t))"
proof -
  note direct = direct_keeps_shape [OF contract valid]
  have hls: "is_hls_image img" and hsv: "is_hsv_image img"
    using valid by (simp_all add: is_hls_image_def is_hsv_image_def three_channel_def)
  have gray: "take 2 (shape im) = take 2 (shape img)"
    if "shape bgr = shape img" and "call_bgr2gray E bgr = (Inr im, tr2)" for bgr im tr2
    using that valid keeps_geometry_bgr(1) [OF contract, of bgr im]
    by (simp add: call_bgr2gray_def)
  have hsv': "shape im = shape img"
    if "shape bgr = shape img" and "call_bgr2hsv E bgr = (Inr im, tr2)" for bgr im tr2
    using that valid keeps_geometry_bgr(2) [OF contract, of bgr im]
    by (simp add: call_bgr2hsv_def)
  have hls': "shape im = shape img"
    if "shape bgr = shape img" and "call_bgr2hls E bgr = (Inr im, tr2)" for bgr im tr2
    using that valid keeps_geometry_bgr(3) [OF contract, of bgr im]
    by (simp add: call_bgr2hls_def)
  have lab: "shape im = shape img"
    if "shape bgr = shape img" and "call_bgr2lab E bgr = (Inr im, tr2)" for bgr im tr2
    using that valid keeps_geometry_bgr(4) [OF contract, of bgr im]
    by (simp add: call_bgr2lab_def)
  have hls_first: "\<forall>bgr tr1. hls2bgr E img = (Inr bgr, tr1) \<longrightarrow> shape bgr = shape img"
    using direct(2) by blast
  have hsv_first: "\<forall>bgr tr1. hsv2bgr E img = (Inr bgr, tr1) \<longrightarrow> shape bgr = shape img"
    using direct(4) by blast
  show ?thesis
  proof (cases c)
    case Hls2rgb
    with ok direct(1) valid show ?thesis by simp
  next
    case Hls2bgr
    with ok direct(2) valid show ?thesis by simp
  next
    case Hls2lab
    with ok hls have "io_bind (hls2bgr E img) (\<lambda>bgr. io_bind (call_bgr2lab E bgr) (\<lambda>im.
        io_return (to_tensor im ''lab''))) = (Inr t, tr)"
      by (simp add: hls2lab_def)
    from second_hop_shape [OF this hls_first] obtain bgr im tr2 where
      b: "shape bgr = shape img" and s: "call_bgr2lab E bgr = (Inr im, tr2)" and e: "shape t = shape im"
      by blast
    from lab [OF b s] e have "shape t = shape img" by simp
    with valid Hls2lab show ?thesis by simp
  next
    case Hls2gray
    with ok hls have "io_bind (hls2bgr E img) (\<lambda>bgr. io_bind (call_bgr2gray E bgr) (\<lambda>im.
        io_return (to_tensor im ''gray''))) = (Inr t, tr)"
      by (simp add: hls2gray_def)
    from second_hop_shape [OF this hls_first] obtain bgr im tr2 where
      b: "shape bgr = shape img" and s: "call_bgr2gray E bgr = (Inr im, tr2)" and e: "shape t = shape im"
      by blast
    from gray [OF b s] e have "take 2 (shape t) = take 2 (shape img)" by simp
    with Hls2gray show ?thesis by simp
  next
    case Hls2hsv
    with ok hls have "io_bind (hls2bgr E img) (\<lambda>bgr. io_bind (call_bgr2hsv E bgr) (\<lambda>im.
        io_return (to_tensor im ''hsv''))) = (Inr t, tr)"
      by (simp add: hls2hsv_def)
    from second_hop_shape [OF this hls_first] obtain bgr im tr2 where
      b: "shape bgr = shape img" and s: "call_bgr2hsv E bgr = (Inr im, tr2)" and e: "shape t = shape im"
      by blast
    from hsv' [OF b s] e have "shape t = shape img" by simp
    with valid Hls2hsv show ?thesis by simp
  next
    case Hsv2rgb
    with ok direct(3) valid show ?thesis by simp
  next
    case Hsv2bgr
    with ok direct(4) valid show ?thesis by simp
  next
    case Hsv2lab
    with ok hsv have "io_bind (hsv2bgr E img) (\<lambda>bgr. io_bind (call_bgr2lab E bgr) (\<lambda>im.
        io_return (to_tensor im ''lab''))) = (Inr t, tr)"
      by (simp add: hsv2lab_def)
    from second_hop_shape [OF this hsv_first] obtain bgr im tr2 where
      b: "shape bgr = shape img" and s: "call_bgr2lab E bgr = (Inr im, tr2)" and e: "shape t = shape im"
      by blast
    from lab [OF b s] e have "shape t = shape img" by simp
    with valid Hsv2lab show ?thesis by simp
  next
    case Hsv2gray
    with ok hsv have "io_bind (hsv2bgr E img) (\<lambda>bgr. io_bind (call_bgr2gray E bgr) (\<lambda>im.
        io_return (to_tensor im ''gray''))) = (Inr t, tr)"
      by (simp add: hsv2gray_def)
    from second_hop_shape [OF this hsv_first] obtain bgr im tr2 where
      b: "shape bgr = shape img" and s: "call_bgr2gray E bgr = (Inr im, tr2)" and e: "shape t = shape im"
      by blast
    from gray [OF b s] e have "take 2 (shape t) = take 2 (shape img)" by simp
    with Hsv2gray show ?thesis by simp
  next
    case Hsv2hls
    with ok hsv have "io_bind (hsv2bgr E img) (\<lambda>bgr. io_bind (call_bgr2hls E bgr) (\<lambda>im.
        io_return (to_tensor im ''hls''))) = (Inr t, tr)"
      by (simp add: hsv2hls_def)
    from second_hop_shape [OF this hsv_first] obtain bgr im tr2 where
      b: "shape bgr = shape img" and s: "call_bgr2hls E bgr = (Inr im, tr2)" and e: "shape t = shape im"
      by blast
    from hls' [OF b s] e have "shape t = shape img" by simp
    with valid Hsv2hls show ?thesis by simp
  qed
qed

theorem geometry_preserved_witness:
  "keeps_geometry stub \<and> three_channel (shape pixel) \<and>
   convert Hsv2gray stub pixel =
     (Inr \<lparr>shape = [1, 1], dtype = ''uint8'', data = [30], cspace = ''gray''\<rparr>,
      [CvtColor \<lparr>shape = [1, 1, 3], dtype = ''uint8'', data = [10, 20, 30]\<rparr> 54,
       Bgr2gray \<lparr>shape = [1, 1, 3], dtype = ''uint8'', data = [30, 20, 10], cspace = ''bgr''\<rparr>]) \<and>
   take 2 (shape \<lparr>shape = [1, 1], dtype = ''uint8'', data = [30], cspace = ''gray''\<rparr>)
     = take 2 (shape pixel) \<and>
   declared_destination Hsv2hls \<noteq> ''gray'' \<and>
   convert Hsv2hls stub pixel =
     (Inr \<lparr>shape = [1, 1, 3], dtype = ''uint8'', data = [30, 20, 10], cspace = ''hls''\<rparr>,
      [CvtColor \<lparr>shape = [1, 1, 3], dtype = ''uint8'', data = [10, 20, 30]\<rparr> 54,
       Bgr2hls \<lparr>shape = [1, 1, 3], dtype = ''uint8'', data = [30, 20, 10], cspace = ''bgr''\<rparr>]) \<and>
   three_channel (shape \<lparr>shape = [1, 1, 3], dtype = ''uint8'', data = [30, 20, 10], cspace = ''hls''\<rparr>)"
proof -
  have valid: "three_channel (shape pixel)"
    by (simp add: three_channel_def pixel_def)
  have gray: "convert Hsv2gray stub pixel =
     (Inr \<lparr>shape = [1, 1], dtype = ''uint8'', data = [30], cspace = ''gray''\<rparr>,
      [CvtColor \<lparr>shape = [1, 1, 3], dtype = ''uint8'', data = [10, 20, 30]\<rparr> 54,
       Bgr2gray \<lparr>shape = [1, 1, 3], dtype = ''uint8'', data = [30, 20, 10], cspace = ''bgr''\<rparr>])"
    by (simp add: hsv2gray_def hsv2bgr_def io_defs is_hsv_image_def pixel_def stub_defs
        to_tensor_def ndarray.truncate_def)
  have hls: "convert Hsv2hls stub pixel =
     (Inr \<lparr>shape = [1, 1, 3], dtype = ''uint8'', data = [30, 20, 10], cspace = ''hls''\<rparr>,
      [CvtColor \<lparr>shape = [1, 1, 3], dtype = ''uint8'', data = [10, 20, 30]\<rparr> 54,
       Bgr2hls \<lparr>shape = [1, 1, 3], dtype = ''uint8'', data = [30, 20, 10], cspace = ''bgr''\<rparr>])"
    by (simp add: hsv2hls_def hsv2bgr_def io_defs is_hsv_image_def pixel_def stub_defs
        to_tensor_def ndarray.truncate_def)
  have dst: "declared_destination Hsv2hls \<noteq> ''gray''" by simp
  from geometry_preserved [OF stub_keeps_geometry valid gray]
    geometry_preserved [OF stub_keeps_geometry valid hls]
    stub_keeps_geometry valid gray hls dst
  show ?thesis by simp
qed

section \<open>The input is left alone\<close>

lemma convert_invalid:
  "\<not> (length (shape img) = 3 \<and> last (shape img) = 3) \<Longrightarrow>
     convert c E img = (Inl (ValueError (shape_message c (length (shape img)))), [])"
  by (cases c)
     (auto simp: conv_defs io_raise_def is_hls_image_def is_hsv_image_def shape_message_def)

lemmas heap_conv_defs = hls2rgb_heap_def hls2bgr_heap_def hls2gray_heap_def hls2hsv_heap_def
  hls2lab_heap_def hsv2rgb_heap_def hsv2bgr_heap_def hsv2gray_heap_def hsv2hls_heap_def
  hsv2lab_heap_def

lemma extends_refl: "extends h h"
  by (simp add: extends_def)

lemma take_take_prefix:
  assumes "take n ys = xs" and "length xs = n" and "take (length ys) zs = ys" and "n \<le> length ys"
  shows "take n zs = xs"
proof -
  have "take n zs = take n (take (length ys) zs)"
    using assms(4) by (simp add: min_def)
  with assms show ?thesis by simp
qed

lemma extends_trans: "extends h h1 \<Longrightarrow> extends h1 h2 \<Longrightarrow> extends h h2"
  unfolding extends_def
  by (metis (no_types) take_take_prefix le_trans)

lemma fresh_result_mono: "extends h0 h \<Longrightarrow> fresh_result h out \<Longrightarrow> fresh_result h0 out"
  by (auto simp: fresh_result_def extends_def split: prod.splits sum.splits
      intro: take_take_prefix)

lemma new_array_extends: "new_array a h = (r, h') \<Longrightarrow> extends h h'"
  by (auto simp: new_array_def extends_def)

lemma new_tensor_fresh: "fresh_result h (new_tensor t h)"
  by (simp add: new_tensor_def fresh_result_def extends_def)

lemma cvtColor_heap_extends: "cvtColor_heap E img code h = (r, h') \<Longrightarrow> extends h h'"
  by (auto simp: cvtColor_heap_def new_array_def extends_def split: sum.splits)

lemma to_tensor_heap_fresh: "fresh_result h (to_tensor_heap im cs h)"
  by (simp add: to_tensor_heap_def new_tensor_fresh)

lemma retag_heap_fresh: "fresh_result h (retag_heap im cs h)"
  by (simp add: retag_heap_def new_tensor_fresh)

lemma bgr_heap_fresh: "fresh_result h (bgr_heap f bgr h)"
  by (simp add: bgr_heap_def new_tensor_fresh split: sum.splits)
     (simp add: fresh_result_def extends_refl)

lemma fresh_result_extends: "fresh_result h (r, h') \<Longrightarrow> extends h h'"
  by (auto simp: fresh_result_def split: sum.splits)

lemma heap_bind_fresh:
  assumes "\<And>r h1. m h = (r, h1) \<Longrightarrow> extends h h1"
    and "\<And>x h1. m h = (Inr x, h1) \<Longrightarrow> fresh_result h1 (f x h1)"
  shows "fresh_result h (heap_bind m f h)"
proof (cases "m h")
  case (Pair r h1)
  show ?thesis
  proof (cases r)
    case (Inl e)
    with Pair assms(1) show ?thesis
      by (simp add: heap_bind_def fresh_result_def)
  next
    case (Inr x)
    with Pair assms(1) [of r h1] assms(2) [of x h1] show ?thesis
      by (simp add: heap_bind_def fresh_result_mono)
  qed
qed

lemma heap_raise_fresh: "fresh_result h (heap_raise e h)"
  by (simp add: heap_raise_def fresh_result_def extends_refl)

lemma direct_heap_fresh:
  "fresh_result h (heap_bind (cvtColor_heap E img code) (\<lambda>im. to_tensor_heap im cs) h)"
  by (rule heap_bind_fresh) (simp_all add: cvtColor_heap_extends to_tensor_heap_fresh)

lemma hls2bgr_heap_fresh: "fresh_result h (hls2bgr_heap E img h)"
  by (simp add: hls2bgr_heap_def heap_raise_fresh direct_heap_fresh)

lemma hsv2bgr_heap_fresh: "fresh_result h (hsv2bgr_heap E img h)"
  by (simp add: hsv2bgr_heap_def heap_raise_fresh direct_heap_fresh)

lemma chain_heap_fresh:
  assumes "\<And>h. fresh_result h (first_hop h)"
  shows "fresh_result h (heap_bind first_hop (\<lambda>bgr. heap_bind (bgr_heap f bgr) (\<lambda>im.
           retag_heap im cs)) h)"
proof (rule heap_bind_fresh)
  fix r h1 assume "first_hop h = (r, h1)"
  with assms [of h] show "extends h h1" by (simp add: fresh_result_extends)
next
  fix x h1
  show "fresh_result h1 (heap_bind (bgr_heap f x) (\<lambda>im. retag_heap im cs) h1)"
  proof (rule heap_bind_fresh)
    fix r h2 assume "bgr_heap f x h1 = (r, h2)"
    with bgr_heap_fresh [of h1 f x] show "extends h1 h2" by (simp add: fresh_result_extends)
  next
    fix y h2 show "fresh_result h2 (retag_heap y cs h2)" by (rule retag_heap_fresh)
  qed
qed

lemma convert_heap_fresh: "fresh_result h (convert_heap c E img h)"
proof (cases c)
  case Hls2rgb
  then show ?thesis by (simp add: hls2rgb_heap_def heap_raise_fresh direct_heap_fresh)
next
  case Hls2bgr
  then show ?thesis by (simp add: hls2bgr_heap_fresh)
next
  case Hls2lab
  then show ?thesis
    by (simp add: hls2lab_heap_def heap_raise_fresh chain_heap_fresh hls2bgr_heap_fresh)
next
  case Hls2gray
  then show ?thesis
    by (simp add: hls2gray_heap_def heap_raise_fresh chain_heap_fresh hls2bgr_heap_fresh)
next
  case Hls2hsv
  then show ?thesis
    by (simp add: hls2hsv_heap_def heap_raise_fresh chain_heap_fresh hls2bgr_heap_fresh)
next
  case Hsv2rgb
  then show ?thesis by (simp add: hsv2rgb_heap_def heap_raise_fresh direct_heap_fresh)
next
  case Hsv2bgr
  then show ?thesis by (simp add: hsv2bgr_heap_fresh)
next
  case Hsv2lab
  then show ?thesis
    by (simp add: hsv2lab_heap_def heap_raise_fresh chain_heap_fresh hsv2bgr_heap_fresh)
next
  case Hsv2gray
  then show ?thesis
    by (simp add: hsv2gray_heap_def heap_raise_fresh chain_heap_fresh hsv2bgr_heap_fresh)
next
  case Hsv2hls
  then show ?thesis
    by (simp add: hsv2hls_heap_def heap_raise_fresh chain_heap_fresh hsv2bgr_heap_fresh)
qed

lemma convert_heap_invalid:
  "\<not> (length (shape (tensors h ! img)) = 3 \<and> last (shape (tensors h ! img)) = 3) \<Longrightarrow>
     convert_heap c E img h =
       (Inl (ValueError (shape_message c (length (shape (tensors h ! img))))), h)"
  by (cases c)
     (auto simp: heap_conv_defs heap_raise_def is_hls_image_def is_hsv_image_def)

lemma direct_simulates:
  "simulates (io_bind (cv_cvtColor E (tensors h ! img) code) (\<lambda>im. io_return (to_tensor im cs)))
     (heap_bind (cvtColor_heap E img code) (\<lambda>im. to_tensor_heap im cs) h)"
  by (simp add: simulates_def heap_bind_def cvtColor_heap_def new_array_def to_tensor_heap_def
        new_tensor_def io_defs split: sum.splits)

lemma chain_simulates:
  assumes "simulates v (first_hop h)"
  shows "simulates
     (io_bind v (\<lambda>bgr. io_bind (f bgr, [tag bgr]) (\<lambda>im. io_return (to_tensor im cs))))
     (heap_bind first_hop (\<lambda>bgr. heap_bind (bgr_heap f bgr) (\<lambda>im. retag_heap im cs)) h)"
  using assms
  by (cases v; cases "first_hop h")
     (auto simp: simulates_def heap_bind_def bgr_heap_def retag_heap_def new_tensor_def
        io_bind_def io_return_def nth_append split: sum.splits)

lemma raise_simulates: "simulates (io_raise e) (heap_raise e h)"
  by (simp add: simulates_def io_raise_def heap_raise_def)

lemma hls2bgr_simulates: "simulates (hls2bgr E (tensors h ! img)) (hls2bgr_heap E img h)"
proof (cases "length (shape (tensors h ! img)) = 3 \<and> last (shape (tensors h ! img)) = 3")
  case False
  from convert_invalid [OF False, where c = Hls2bgr and E = E]
    convert_heap_invalid [OF False, where c = Hls2bgr and E = E]
  show ?thesis by (simp add: simulates_def)
next
  case True
  then show ?thesis
    by (simp add: hls2bgr_def hls2bgr_heap_def direct_simulates is_hls_image_def)
qed

lemma hsv2bgr_simulates: "simulates (hsv2bgr E (tensors h ! img)) (hsv2bgr_heap E img h)"
proof (cases "length (shape (tensors h ! img)) = 3 \<and> last (shape (tensors h ! img)) = 3")
  case False
  from convert_invalid [OF False, where c = Hsv2bgr and E = E]
    convert_heap_invalid [OF False, where c = Hsv2bgr and E = E]
  show ?thesis by (simp add: simulates_def)
next
  case True
  then show ?thesis
    by (simp add: hsv2bgr_def hsv2bgr_heap_def direct_simulates is_hsv_image_def)
qed

lemma convert_heap_simulates:
  "simulates (convert c E (tensors h ! img)) (convert_heap c E img h)"
proof (cases "length (shape (tensors h ! img)) = 3 \<and> last (shape (tensors h ! img)) = 3")
  case False
  then show ?thesis
    by (simp add: convert_invalid convert_heap_invalid simulates_def)
next
  case True
  then have v: "is_hls_image (tensors h ! img)" "is_hsv_image (tensors h ! img)"
    by (simp_all add: is_hls_image_def is_hsv_image_def)
  show ?thesis
  proof (cases c)
    case Hls2rgb
    with v show ?thesis by (simp add: hls2rgb_def hls2rgb_heap_def direct_simulates)
  next
    case Hls2bgr
    then show ?thesis by (simp add: hls2bgr_simulates)
  next
    case Hls2lab
    with v chain_simulates [where first_hop = "hls2bgr_heap E img" and f = "bgr2lab E" and tag = Bgr2lab
        and cs = "''lab''", OF hls2bgr_simulates]
    show ?thesis by (simp add: hls2lab_def hls2lab_heap_def call_bgr2lab_def)
  next
    case Hls2gray
    with v chain_simulates [where first_hop = "hls2bgr_heap E img" and f = "bgr2gray E" and tag = Bgr2gray
        and cs = "''gray''", OF hls2bgr_simulates]
    show ?thesis by (simp add: hls2gray_def hls2gray_heap_def call_bgr2gray_def)
  next
    case Hls2hsv
    with v chain_simulates [where first_hop = "hls2bgr_heap E img" and f = "bgr2hsv E" and tag = Bgr2hsv
        and cs = "''hsv''", OF hls2bgr_simulates]
    show ?thesis by (simp add: hls2hsv_def hls2hsv_heap_def call_bgr2hsv_def)
  next
    case Hsv2rgb
    with v show ?thesis by (simp add: hsv2rgb_def hsv2rgb_heap_def direct_simulates)
  next
    case Hsv2bgr
    then show ?thesis by (simp add: hsv2bgr_simulates)
  next
    case Hsv2lab
    with v chain_simulates [where first_hop = "hsv2bgr_heap E img" and f = "bgr2lab E" and tag = Bgr2lab
        and cs = "''lab''", OF hsv2bgr_simulates]
    show ?thesis by (simp add: hsv2lab_def hsv2lab_heap_def call_bgr2lab_def)
  next
    case Hsv2gray
    with v chain_simulates [where first_hop = "hsv2bgr_heap E img" and f = "bgr2gray E" and tag = Bgr2gray
        and cs = "''gray''", OF hsv2bgr_simulates]
    show ?thesis by (simp add: hsv2gray_def hsv2gray_heap_def call_bgr2gray_def)
  next
    case Hsv2hls
    with v chain_simulates [where first_hop = "hsv2bgr_heap E img" and f = "bgr2hls E" and tag = Bgr2hls
        and cs = "''hls''", OF hsv2bgr_simulates]
    show ?thesis by (simp add: hsv2hls_def hsv2hls_heap_def call_bgr2hls_def)
  qed
qed

text \<open>
  C8. No conversion writes to its input. Whatever the call ends with, the input tensor
  and every other object allocated before are found unchanged afterwards; a successful
  call returns a tensor allocated by the call, hence not the input, holding the value
  the function computes; a call that fails the shape check allocates nothing and
  returns nothing.
\<close>

theorem input_never_mutated:
  assumes run: "convert_heap c E img h = (res, h')" and live: "img < length (tensors h)"
  shows "tensors h' ! img = tensors h ! img \<and>
         take (length (tensors h)) (tensors h') = tensors h \<and>
         take (length (arrays h)) (arrays h') = arrays h \<and>
         (case res of
            Inr out \<Rightarrow> out \<noteq> img \<and> length (tensors h) \<le> out \<and> out < length (tensors h')
              \<and> fst (convert c E (tensors h ! img)) = Inr (tensors h' ! out)
          | Inl e \<Rightarrow> fst (convert c E (tensors h ! img)) = Inl e) \<and>
         (\<not> (length (shape (tensors h ! img)) = 3 \<and> last (shape (tensors h ! img)) = 3)
            \<longrightarrow> h' = h)"
proof -
  from convert_heap_fresh [of h c E img] run have fresh: "fresh_result h (res, h')"
    by simp
  then have ext: "extends h h'" by (rule fresh_result_extends)
  then have pre: "take (length (tensors h)) (tensors h') = tensors h"
    and pre': "take (length (arrays h)) (arrays h') = arrays h"
    by (simp_all add: extends_def)
  from pre live have same: "tensors h' ! img = tensors h ! img"
    by (metis nth_take)
  from convert_heap_simulates [of c E h img] run
  have sim: "simulates (convert c E (tensors h ! img)) (res, h')" by simp
  have out: "(case res of
            Inr out \<Rightarrow> out \<noteq> img \<and> length (tensors h) \<le> out \<and> out < length (tensors h')
              \<and> fst (convert c E (tensors h ! img)) = Inr (tensors h' ! out)
          | Inl e \<Rightarrow> fst (convert c E (tensors h ! img)) = Inl e)"
    using fresh sim live by (auto simp: fresh_result_def simulates_def split: sum.splits)
  have rejected: "\<not> (length (shape (tensors h ! img)) = 3 \<and> last (shape (tensors h ! img)) = 3)
            \<longrightarrow> h' = h"
    using run convert_heap_invalid [of h img c E] by auto
  from same pre pre' out rejected show ?thesis by blast
qed

theorem input_never_mutated_witness:
  "convert_heap Hls2gray stub 0 heap0 =
     (Inr 4,
      \<lparr>arrays = [\<lparr>shape = [1, 1, 3], dtype = ''uint8'', data = [30, 20, 10]\<rparr>],
       tensors = [pixel, flat,
         \<lparr>shape = [1, 1, 3], dtype = ''uint8'', data = [30, 20, 10], cspace = ''bgr''\<rparr>,
         \<lparr>shape = [1, 1], dtype = ''uint8'', data = [30], cspace = ''gray''\<rparr>,
         \<lparr>shape = [1, 1], dtype = ''uint8'', data = [30], cspace = ''gray''\<rparr>]\<rparr>) \<and>
   0 < length (tensors heap0) \<and> tensors heap0 ! 0 = pixel \<and>
   fst (convert Hls2gray stub pixel)
     = Inr \<lparr>shape = [1, 1], dtype = ''uint8'', data = [30], cspace = ''gray''\<rparr> \<and>
   1 < length (tensors heap0) \<and> tensors heap0 ! 1 = flat \<and>
   \<not> (length (shape flat) = 3 \<and> last (shape flat) = 3) \<and>
   snd (convert_heap Hls2gray stub 1 heap0) = heap0"
proof -
  have run: "convert_heap Hls2gray stub 0 heap0 =
     (Inr 4,
      \<lparr>arrays = [\<lparr>shape = [1, 1, 3], dtype = ''uint8'', data = [30, 20, 10]\<rparr>],
       tensors = [pixel, flat,
         \<lparr>shape = [1, 1, 3], dtype = ''uint8'', data = [30, 20, 10], cspace = ''bgr''\<rparr>,
         \<lparr>shape = [1, 1], dtype = ''uint8'', data = [30], cspace = ''gray''\<rparr>,
         \<lparr>shape = [1, 1], dtype = ''uint8'', data = [30], cspace = ''gray''\<rparr>]\<rparr>)"
    by (simp add: hls2gray_heap_def hls2bgr_heap_def heap_bind_def cvtColor_heap_def
        new_array_def to_tensor_heap_def new_tensor_def bgr_heap_def retag_heap_def
        is_hls_image_def heap0_def pixel_def stub_defs to_tensor_def ndarray.truncate_def)
  have live: "0 < length (tensors heap0)" "1 < length (tensors heap0)"
    and at: "tensors heap0 ! 0 = pixel" "tensors heap0 ! 1 = flat"
    by (simp_all add: heap0_def)
  have bad: "\<not> (length (shape flat) = 3 \<and> last (shape flat) = 3)"
    by (simp add: flat_def)
  obtain res h' where rej: "convert_heap Hls2gray stub 1 heap0 = (res, h')"
    by (cases "convert_heap Hls2gray stub 1 heap0")
  from input_never_mutated [OF run live(1)] input_never_mutated [OF rej live(2)]
    run live at bad rej
  show ?thesis by simp
qed

section \<open>Determinism\<close>

lemmas act_conv_defs = hls2rgb_act_def hls2bgr_act_def hls2gray_act_def hls2hsv_act_def
  hls2lab_act_def hsv2rgb_act_def hsv2bgr_act_def hsv2gray_act_def hsv2hls_act_def
  hsv2lab_act_def

lemma settled_raise: "settled (act_raise e)"
  by (simp add: settled_def act_raise_def)

lemma settled_return: "settled (act_return x)"
  by (simp add: settled_def act_return_def)

lemma settled_graph: "settled (graph x)"
  by (simp add: settled_def graph_def)

lemma settled_bind:
  assumes m: "settled m" and f: "\<And>x. settled (f x)"
  shows "settled (act_bind m f)"
proof -
  have res: "r = s" if a: "act_bind m f w r w'" and b: "act_bind m f v s v'" for w r w' v s v'
  proof -
    from a consider
      (err) e where "m w (Inl e) w'" "r = Inl e"
      | (ok) x w1 where "m w (Inr x) w1" "f x w1 r w'"
      unfolding act_bind_def by blast
    then show ?thesis
    proof cases
      case err
      from b consider
        (err') e' where "m v (Inl e') v'" "s = Inl e'"
        | (ok') y v1 where "m v (Inr y) v1" "f y v1 s v'"
        unfolding act_bind_def by blast
      then show ?thesis
      proof cases
        case err'
        with err m show ?thesis unfolding settled_def by blast
      next
        case ok'
        with err m have "Inl e = Inr y" unfolding settled_def by blast
        then show ?thesis by simp
      qed
    next
      case ok
      from b consider
        (err') e' where "m v (Inl e') v'" "s = Inl e'"
        | (ok') y v1 where "m v (Inr y) v1" "f y v1 s v'"
        unfolding act_bind_def by blast
      then show ?thesis
      proof cases
        case err'
        with ok m have "Inr x = Inl e'" unfolding settled_def by blast
        then show ?thesis by simp
      next
        case ok'
        with ok m have "Inr x = Inr y" unfolding settled_def by blast
        then have "x = y" by simp
        with ok ok' f [of x] show ?thesis unfolding settled_def by blast
      qed
    qed
  qed
  have frame: "w' = w" if a: "act_bind m f w r w'" for w r w'
  proof -
    from a consider
      (err) e where "m w (Inl e) w'" "r = Inl e"
      | (ok) x w1 where "m w (Inr x) w1" "f x w1 r w'"
      unfolding act_bind_def by blast
    then show ?thesis
    proof cases
      case err
      with m show ?thesis unfolding settled_def by blast
    next
      case ok
      with m have "w1 = w" unfolding settled_def by blast
      moreover from ok f [of x] have "w' = w1" unfolding settled_def by blast
      ultimately show ?thesis by simp
    qed
  qed
  from res frame show ?thesis unfolding settled_def by blast
qed

lemma direct_settled:
  "settled m \<Longrightarrow> settled (act_bind m (\<lambda>im. act_return (to_tensor im cs)))"
  by (rule settled_bind) (simp_all add: settled_return)

lemma chain_settled:
  assumes "settled first_hop" and "\<And>bgr. settled (second_hop bgr)"
  shows "settled (act_bind first_hop (\<lambda>bgr. act_bind (second_hop bgr) (\<lambda>im.
           act_return (to_tensor im cs))))"
  using assms by (intro settled_bind) (simp_all add: settled_return)

lemma hls2bgr_act_settled: "pure_collaborators W \<Longrightarrow> settled (hls2bgr_act W img)"
  by (simp add: hls2bgr_act_def settled_raise direct_settled pure_collaborators_def)

lemma hsv2bgr_act_settled: "pure_collaborators W \<Longrightarrow> settled (hsv2bgr_act W img)"
  by (simp add: hsv2bgr_act_def settled_raise direct_settled pure_collaborators_def)

lemma convert_act_settled:
  assumes "pure_collaborators W"
  shows "settled (convert_act c W img)"
proof -
  note first = hls2bgr_act_settled [OF assms, of img] hsv2bgr_act_settled [OF assms, of img]
  from assms have second:
    "\<And>bgr. settled (bgr2gray_w W bgr)" "\<And>bgr. settled (bgr2hsv_w W bgr)"
    "\<And>bgr. settled (bgr2hls_w W bgr)" "\<And>bgr. settled (bgr2lab_w W bgr)"
    and native: "\<And>src code. settled (cvtColor_w W src code)"
    by (simp_all add: pure_collaborators_def)
  show ?thesis
    by (cases c)
       (simp_all add: act_conv_defs settled_raise direct_settled chain_settled first second
          native)
qed

lemma convert_act_reads_buffer:
  "ndarray.truncate a = ndarray.truncate b \<Longrightarrow> convert_act c W a = convert_act c W b"
proof -
  assume same: "ndarray.truncate a = ndarray.truncate b"
  then have sh: "shape a = shape b"
    by (simp add: ndarray.truncate_def)
  have bgr: "hls2bgr_act W a = hls2bgr_act W b" "hsv2bgr_act W a = hsv2bgr_act W b"
    using same sh by (simp_all add: hls2bgr_act_def hsv2bgr_act_def is_hls_image_def
        is_hsv_image_def)
  show ?thesis
    using same sh bgr
    by (cases c) (simp_all add: act_conv_defs is_hls_image_def is_hsv_image_def)
qed

lemma act_raise_graph: "act_raise e = graph (Inl e)"
  by (simp add: fun_eq_iff act_raise_def graph_def)

lemma act_return_graph: "act_return x = graph (Inr x)"
  by (simp add: fun_eq_iff act_return_def graph_def)

lemma act_bind_graph:
  "act_bind (graph x) f = (case x of Inl e \<Rightarrow> graph (Inl e) | Inr y \<Rightarrow> f y)"
  by (auto simp: fun_eq_iff act_bind_def graph_def split: sum.splits)

lemma hls2bgr_act_graph: "hls2bgr_act (as_outside E) img = graph (fst (hls2bgr E img))"
proof (cases "length (shape img) = 3 \<and> last (shape img) = 3")
  case False
  from convert_invalid [OF False, where c = Hls2bgr and E = E] False show ?thesis
    by (simp add: hls2bgr_act_def is_hls_image_def act_raise_graph)
next
  case True
  then show ?thesis
    by (simp add: hls2bgr_act_def hls2bgr_def is_hls_image_def as_outside_def act_bind_graph
        act_return_graph io_defs split: sum.splits)
qed

lemma hsv2bgr_act_graph: "hsv2bgr_act (as_outside E) img = graph (fst (hsv2bgr E img))"
proof (cases "length (shape img) = 3 \<and> last (shape img) = 3")
  case False
  from convert_invalid [OF False, where c = Hsv2bgr and E = E] False show ?thesis
    by (simp add: hsv2bgr_act_def is_hsv_image_def act_raise_graph)
next
  case True
  then show ?thesis
    by (simp add: hsv2bgr_act_def hsv2bgr_def is_hsv_image_def as_outside_def act_bind_graph
        act_return_graph io_defs split: sum.splits)
qed

lemma convert_act_graph: "convert_act c (as_outside E) img = graph (fst (convert c E img))"
proof (cases "length (shape img) = 3 \<and> last (shape img) = 3")
  case False
  from convert_invalid [OF False, where c = c and E = E] False show ?thesis
    by (cases c) (simp_all add: act_conv_defs is_hls_image_def is_hsv_image_def act_raise_graph)
next
  case True
  then have v: "is_hls_image img" "is_hsv_image img"
    by (simp_all add: is_hls_image_def is_hsv_image_def)
  have sel: "bgr2gray_w (as_outside E) = (\<lambda>bgr. graph (bgr2gray E bgr))"
    "bgr2hsv_w (as_outside E) = (\<lambda>bgr. graph (bgr2hsv E bgr))"
    "bgr2hls_w (as_outside E) = (\<lambda>bgr. graph (bgr2hls E bgr))"
    "bgr2lab_w (as_outside E) = (\<lambda>bgr. graph (bgr2lab E bgr))"
    by (simp_all add: as_outside_def)
  show ?thesis
  proof (cases c)
    case Hls2rgb
    with v show ?thesis
      by (simp add: hls2rgb_act_def hls2rgb_def as_outside_def act_bind_graph
          act_return_graph io_defs split: sum.splits)
  next
    case Hls2bgr
    then show ?thesis by (simp add: hls2bgr_act_graph)
  next
    case Hls2lab
    with v show ?thesis
      by (cases "hls2bgr E img")
         (simp add: hls2lab_act_def hls2lab_def hls2bgr_act_graph sel act_bind_graph
          act_return_graph io_bind_def io_return_def call_bgr2lab_def split: sum.splits)
  next
    case Hls2gray
    with v show ?thesis
      by (cases "hls2bgr E img")
         (simp add: hls2gray_act_def hls2gray_def hls2bgr_act_graph sel act_bind_graph
          act_return_graph io_bind_def io_return_def call_bgr2gray_def split: sum.splits)
  next
    case Hls2hsv
    with v show ?thesis
      by (cases "hls2bgr E img")
         (simp add: hls2hsv_act_def hls2hsv_def hls2bgr_act_graph sel act_bind_graph
          act_return_graph io_bind_def io_return_def call_bgr2hsv_def split: sum.splits)
  next
    case Hsv2rgb
    with v show ?thesis
      by (simp add: hsv2rgb_act_def hsv2rgb_def as_outside_def act_bind_graph
          act_return_graph io_defs split: sum.splits)
  next
    case Hsv2bgr
    then show ?thesis by (simp add: hsv2bgr_act_graph)
  next
    case Hsv2lab
    with v show ?thesis
      by (cases "hsv2bgr E img")
         (simp add: hsv2lab_act_def hsv2lab_def hsv2bgr_act_graph sel act_bind_graph
          act_return_graph io_bind_def io_return_def call_bgr2lab_def split: sum.splits)
  next
    case Hsv2gray
    with v show ?thesis
      by (cases "hsv2bgr E img")
         (simp add: hsv2gray_act_def hsv2gray_def hsv2bgr_act_graph sel act_bind_graph
          act_return_graph io_bind_def io_return_def call_bgr2gray_def split: sum.splits)
  next
    case Hsv2hls
    with v show ?thesis
      by (cases "hsv2bgr E img")
         (simp add: hsv2hls_act_def hsv2hls_def hsv2bgr_act_graph sel act_bind_graph
          act_return_graph io_bind_def io_return_def call_bgr2hls_def split: sum.splits)
  qed
qed

lemma as_outside_pure: "pure_collaborators (as_outside E)"
  by (simp add: pure_collaborators_def as_outside_def settled_graph)

text \<open>
  The relations can tell a deterministic outside from one that is not: with the counting
  primitive, two calls of \<open>hsv2rgb\<close> on the same image return different bytes and
  change the state.
\<close>

lemma drifting_not_deterministic:
  "hsv2rgb_act drifting pixel 0
     (Inr \<lparr>shape = [1, 1, 3], dtype = ''uint8'', data = [10, 20, 30], cspace = ''rgb''\<rparr>) 1 \<and>
   hsv2rgb_act drifting pixel 1
     (Inr \<lparr>shape = [1, 1, 3], dtype = ''uint8'', data = [11, 21, 31], cspace = ''rgb''\<rparr>) 2"
  by (simp add: hsv2rgb_act_def is_hsv_image_def pixel_def drifting_def act_bind_def
      act_return_def to_tensor_def ndarray.truncate_def)

lemma drifting_not_pure: "\<not> pure_collaborators drifting"
proof
  assume "pure_collaborators drifting"
  then have "settled (cvtColor_w drifting (ndarray.truncate pixel) 55)"
    by (simp add: pure_collaborators_def)
  moreover have "cvtColor_w drifting (ndarray.truncate pixel) 55 0
      (Inr ((ndarray.truncate pixel)\<lparr>data := map (\<lambda>x. x + of_nat 0) (data (ndarray.truncate pixel))\<rparr>)) (Suc 0)"
    by (simp add: drifting_def)
  ultimately have "Suc 0 = 0" unfolding settled_def by blast
  then show False by simp
qed

text \<open>
  C9. With collaborators that are deterministic and free of side effects, each of the
  ten functions is deterministic: two calls on the same input buffer, from whatever
  states of the outside, end alike, with the same container (bytes and label) or the
  same exception, and each leaves the state as it found it. The functions add no
  source of variation and no effect of their own.
\<close>

theorem conversions_deterministic:
  assumes pure: "pure_collaborators W"
    and same: "ndarray.truncate a = ndarray.truncate b"
    and first: "convert_act c W a w r w'"
    and second: "convert_act c W b v s v'"
  shows "r = s \<and> w' = w \<and> v' = v"
proof -
  have "convert_act c W a = convert_act c W b"
    by (rule convert_act_reads_buffer [OF same])
  with second have second': "convert_act c W a v s v'"
    by simp
  from convert_act_settled [OF pure, of c a] first second' show ?thesis
    unfolding settled_def by blast
qed

theorem conversions_deterministic_witness:
  "pure_collaborators (as_outside stub :: nat outside) \<and>
   ndarray.truncate pixel = ndarray.truncate (pixel\<lparr>cspace := ''rgb''\<rparr>) \<and>
   convert_act Hsv2gray (as_outside stub) pixel (0::nat)
     (Inr \<lparr>shape = [1, 1], dtype = ''uint8'', data = [30], cspace = ''gray''\<rparr>) 0 \<and>
   convert_act Hsv2gray (as_outside stub) (pixel\<lparr>cspace := ''rgb''\<rparr>) (7::nat)
     (Inr \<lparr>shape = [1, 1], dtype = ''uint8'', data = [30], cspace = ''gray''\<rparr>) 7"
proof -
  have same: "ndarray.truncate pixel = ndarray.truncate (pixel\<lparr>cspace := ''rgb''\<rparr>)"
    by (simp add: pixel_def ndarray.truncate_def)
  have vals: "fst (convert Hsv2gray stub pixel)
      = Inr \<lparr>shape = [1, 1], dtype = ''uint8'', data = [30], cspace = ''gray''\<rparr>"
    "fst (convert Hsv2gray stub (pixel\<lparr>cspace := ''rgb''\<rparr>))
      = Inr \<lparr>shape = [1, 1], dtype = ''uint8'', data = [30], cspace = ''gray''\<rparr>"
    by (simp_all add: hsv2gray_def hsv2bgr_def io_defs is_hsv_image_def pixel_def stub_defs
        to_tensor_def ndarray.truncate_def)
  have first: "convert_act Hsv2gray (as_outside stub) pixel (0::nat)
     (Inr \<lparr>shape = [1, 1], dtype = ''uint8'', data = [30], cspace = ''gray''\<rparr>) 0"
    and second: "convert_act Hsv2gray (as_outside stub) (pixel\<lparr>cspace := ''rgb''\<rparr>) (7::nat)
     (Inr \<lparr>shape = [1, 1], dtype = ''uint8'', data = [30], cspace = ''gray''\<rparr>) 7"
    using convert_act_graph [of Hsv2gray stub pixel, where 'a = nat]
      convert_act_graph [of Hsv2gray stub "pixel\<lparr>cspace := ''rgb''\<rparr>", where 'a = nat] vals
    by (simp_all add: graph_def)
  from conversions_deterministic [OF as_outside_pure same first second]
    as_outside_pure [of stub, where 'a = nat] same first second
  show ?thesis by simp
qed

end
